theory Spec2Isabelle
  imports Complex_Main
begin

section \<open>Tensors and the framework primitives used by the LUKE model\<close>

text \<open>
  The model file \<^verbatim>\<open>paddlenlp/transformers/luke/modeling.py\<close> is a composition of
  tensor operations. Tensors of fixed rank are nested lists in row-major order:
  a tensor of shape \<open>[B, S, H]\<close> is a list of \<open>B\<close> batch entries, each a list of \<open>S\<close>
  positions, each a list of \<open>H\<close> numbers. The 32-bit floats of the framework are
  idealised as real numbers; no rounding is modelled.

  A nested list does not record the extent of an axis that lies below an empty axis,
  so the operations that need such an extent (a transposition) take it as an argument.
  The framework raises on operands whose shapes do not fit; the functions below are
  total, and the theorems state the shape conditions they rely on.
\<close>

type_synonym vec = "real list"
type_synonym tensor2 = "real list list"
type_synonym tensor3 = "real list list list"
type_synonym tensor4 = "real list list list list"

definition dim1 :: "'a list list \<Rightarrow> nat" where
  \<comment> \<open>\<^verbatim>\<open>x.shape[1]\<close>, read off the first entry of axis 0\<close>
  "dim1 x = (case x of [] \<Rightarrow> 0 | r # _ \<Rightarrow> length r)"

definition dot :: "vec \<Rightarrow> vec \<Rightarrow> real" where
  "dot xs ys = sum_list (map2 (*) xs ys)"

definition column :: "'a list list \<Rightarrow> nat \<Rightarrow> 'a list" where
  "column m j = map (\<lambda>r. r ! j) m"

definition swap_axes :: "nat \<Rightarrow> 'a list list \<Rightarrow> 'a list list" where
  \<comment> \<open>exchange the two leading axes of \<open>m\<close>; \<open>n\<close> is the extent of the second one\<close>
  "swap_axes n m = map (column m) [0..<n]"

definition matmul2 :: "tensor2 \<Rightarrow> tensor2 \<Rightarrow> tensor2" where
  \<comment> \<open>\<^verbatim>\<open>paddle.matmul\<close> of an \<open>[n, k]\<close> by a \<open>[k, m]\<close> matrix\<close>
  "matmul2 a b = map (\<lambda>row. map (\<lambda>j. dot row (column b j)) [0..<dim1 b]) a"

definition matmul4 :: "tensor4 \<Rightarrow> tensor4 \<Rightarrow> tensor4" where
  "matmul4 a b = map2 (map2 matmul2) a b"

definition transpose_0213 :: "nat \<Rightarrow> 'a list list list list \<Rightarrow> 'a list list list list" where
  \<comment> \<open>\<^verbatim>\<open>x.transpose((0, 2, 1, 3))\<close>; \<open>n\<close> is \<^verbatim>\<open>x.shape[2]\<close>\<close>
  "transpose_0213 n x = map (swap_axes n) x"

definition transpose_0132 :: "nat \<Rightarrow> 'a list list list list \<Rightarrow> 'a list list list list" where
  \<comment> \<open>\<^verbatim>\<open>x.transpose((0, 1, 3, 2))\<close>; \<open>n\<close> is \<^verbatim>\<open>x.shape[3]\<close>\<close>
  "transpose_0132 n x = map (map (swap_axes n)) x"

definition concat_axis1 :: "'a list list \<Rightarrow> 'a list list \<Rightarrow> 'a list list" where
  \<comment> \<open>\<^verbatim>\<open>paddle.concat([x, y], axis=1)\<close>\<close>
  "concat_axis1 x y = map2 (@) x y"

definition concat_axis2 :: "'a list list list \<Rightarrow> 'a list list list \<Rightarrow> 'a list list list" where
  "concat_axis2 x y = map2 concat_axis1 x y"

definition concat_axis3 ::
  "'a list list list list \<Rightarrow> 'a list list list list \<Rightarrow> 'a list list list list" where
  "concat_axis3 x y = map2 concat_axis2 x y"

definition broadcast2 :: "('a \<Rightarrow> 'b \<Rightarrow> 'c) \<Rightarrow> 'a list \<Rightarrow> 'b list \<Rightarrow> 'c list" where
  \<comment> \<open>one axis of an elementwise operation: equal extents pair up, an extent of 1 is
      repeated; the framework raises on any other pair of extents\<close>
  "broadcast2 f xs ys =
     (if length xs = length ys then map2 f xs ys
      else if length xs = 1 then map (f (hd xs)) ys
      else if length ys = 1 then map (\<lambda>x. f x (hd ys)) xs
      else [])"

definition add4 :: "tensor4 \<Rightarrow> tensor4 \<Rightarrow> tensor4" where
  \<comment> \<open>\<^verbatim>\<open>x + y\<close> on two tensors of rank 4, with broadcasting\<close>
  "add4 x y = broadcast2 (broadcast2 (broadcast2 (broadcast2 (+)))) x y"

definition softmax :: "vec \<Rightarrow> vec" where
  \<comment> \<open>\<^verbatim>\<open>nn.functional.softmax\<close> along one axis\<close>
  "softmax v = map (\<lambda>x. exp x / sum_list (map exp v)) v"

definition imap :: "(nat \<Rightarrow> 'a \<Rightarrow> 'b) \<Rightarrow> 'a list \<Rightarrow> 'b list" where
  "imap f xs = map2 f [0..<length xs] xs"

subsection \<open>\<^verbatim>\<open>nn.Linear\<close> and \<^verbatim>\<open>nn.Dropout\<close>\<close>

record Linear =
  in_features :: nat
  out_features :: nat
  weight :: tensor2  \<comment> \<open>shape \<open>[in_features, out_features]\<close>\<close>
  bias :: "vec option"  \<comment> \<open>\<open>None\<close> for \<^verbatim>\<open>bias_attr=False\<close>\<close>

definition Linear_forward :: "Linear \<Rightarrow> vec \<Rightarrow> vec" where
  \<comment> \<open>\<open>x W + b\<close> on one vector of the last axis\<close>
  "Linear_forward l x =
     map (\<lambda>j. dot x (column (weight l) j) + (case bias l of None \<Rightarrow> 0 | Some b \<Rightarrow> b ! j))
       [0..<out_features l]"

definition Linear_forward2 :: "Linear \<Rightarrow> tensor2 \<Rightarrow> tensor2" where
  "Linear_forward2 l x = map (Linear_forward l) x"

definition Linear_forward3 :: "Linear \<Rightarrow> tensor3 \<Rightarrow> tensor3" where
  "Linear_forward3 l x = map (Linear_forward2 l) x"

text \<open>
  A dropout layer is the identity in evaluation mode and for the probability \<open>0\<close>. In training mode
  it zeroes the entries that its random draw does not keep and divides the kept ones by
  \<open>1 - drop_prob\<close> (\<^verbatim>\<open>upscale_in_train\<close>). The draw of one call is the field \<open>keep\<close>, a predicate on
  the multi-index of an entry.
\<close>

record Dropout =
  drop_prob :: real
  training :: bool
  keep :: "nat list \<Rightarrow> bool"

definition Dropout_entry :: "Dropout \<Rightarrow> nat list \<Rightarrow> real \<Rightarrow> real" where
  "Dropout_entry d idx x =
     (if \<not> training d \<or> drop_prob d = 0 then x
      else if keep d idx then x / (1 - drop_prob d) else 0)"

definition Dropout_forward2 :: "Dropout \<Rightarrow> tensor2 \<Rightarrow> tensor2" where
  "Dropout_forward2 d x = imap (\<lambda>i. imap (\<lambda>j. Dropout_entry d [i, j])) x"

definition Dropout_forward3 :: "Dropout \<Rightarrow> tensor3 \<Rightarrow> tensor3" where
  "Dropout_forward3 d x =
     imap (\<lambda>b. imap (\<lambda>i. imap (\<lambda>j. Dropout_entry d [b, i, j]))) x"

definition Dropout_forward4 :: "Dropout \<Rightarrow> tensor4 \<Rightarrow> tensor4" where
  "Dropout_forward4 d x =
     imap (\<lambda>b. imap (\<lambda>h. imap (\<lambda>i. imap (\<lambda>j. Dropout_entry d [b, h, i, j])))) x"

section \<open>\<^verbatim>\<open>LukeSelfAttention\<close>\<close>

record LukeSelfAttention =
  num_attention_heads :: nat
  attention_head_size :: nat
  query :: Linear
  key :: Linear
  "value" :: Linear
  w2e_query :: Linear
  e2w_query :: Linear
  e2e_query :: Linear
  dropout :: Dropout

definition all_head_size :: "LukeSelfAttention \<Rightarrow> nat" where
  "all_head_size self = num_attention_heads self * attention_head_size self"

definition split_heads :: "nat \<Rightarrow> nat \<Rightarrow> vec \<Rightarrow> tensor2" where
  \<comment> \<open>the reshape of one vector of length \<open>n * d\<close> to \<open>[n, d]\<close>\<close>
  "split_heads n d v = map (\<lambda>h. take d (drop (h * d) v)) [0..<n]"

definition transpose_for_scores :: "LukeSelfAttention \<Rightarrow> tensor3 \<Rightarrow> tensor4" where
  "transpose_for_scores self x =
     transpose_0213 (num_attention_heads self)
       (map (map (split_heads (num_attention_heads self) (attention_head_size self))) x)"

definition concat_hidden_states :: "tensor3 \<Rightarrow> tensor3 option \<Rightarrow> tensor3" where
  "concat_hidden_states word_hidden_states entity_hidden_states =
     (case entity_hidden_states of
        None \<Rightarrow> word_hidden_states
      | Some e \<Rightarrow> concat_axis1 word_hidden_states e)"

definition key_layer :: "LukeSelfAttention \<Rightarrow> tensor3 \<Rightarrow> tensor3 option \<Rightarrow> tensor4" where
  "key_layer self w e =
     transpose_for_scores self (Linear_forward3 (key self) (concat_hidden_states w e))"

definition value_layer :: "LukeSelfAttention \<Rightarrow> tensor3 \<Rightarrow> tensor3 option \<Rightarrow> tensor4" where
  "value_layer self w e =
     transpose_for_scores self (Linear_forward3 (value self) (concat_hidden_states w e))"

definition w2w_key_layer :: "LukeSelfAttention \<Rightarrow> tensor3 \<Rightarrow> tensor3 \<Rightarrow> tensor4" where
  "w2w_key_layer self w e = map (map (take (dim1 w))) (key_layer self w (Some e))"

definition e2w_key_layer :: "LukeSelfAttention \<Rightarrow> tensor3 \<Rightarrow> tensor3 \<Rightarrow> tensor4" where
  "e2w_key_layer self w e = map (map (take (dim1 w))) (key_layer self w (Some e))"

definition w2e_key_layer :: "LukeSelfAttention \<Rightarrow> tensor3 \<Rightarrow> tensor3 \<Rightarrow> tensor4" where
  "w2e_key_layer self w e = map (map (drop (dim1 w))) (key_layer self w (Some e))"

definition e2e_key_layer :: "LukeSelfAttention \<Rightarrow> tensor3 \<Rightarrow> tensor3 \<Rightarrow> tensor4" where
  "e2e_key_layer self w e = map (map (drop (dim1 w))) (key_layer self w (Some e))"

definition w2w_attention_scores :: "LukeSelfAttention \<Rightarrow> tensor3 \<Rightarrow> tensor3 \<Rightarrow> tensor4" where
  "w2w_attention_scores self w e =
     matmul4 (transpose_for_scores self (Linear_forward3 (query self) w))
       (transpose_0132 (attention_head_size self) (w2w_key_layer self w e))"

definition w2e_attention_scores :: "LukeSelfAttention \<Rightarrow> tensor3 \<Rightarrow> tensor3 \<Rightarrow> tensor4" where
  "w2e_attention_scores self w e =
     matmul4 (transpose_for_scores self (Linear_forward3 (w2e_query self) w))
       (transpose_0132 (attention_head_size self) (w2e_key_layer self w e))"

definition e2w_attention_scores :: "LukeSelfAttention \<Rightarrow> tensor3 \<Rightarrow> tensor3 \<Rightarrow> tensor4" where
  "e2w_attention_scores self w e =
     matmul4 (transpose_for_scores self (Linear_forward3 (e2w_query self) e))
       (transpose_0132 (attention_head_size self) (e2w_key_layer self w e))"

definition e2e_attention_scores :: "LukeSelfAttention \<Rightarrow> tensor3 \<Rightarrow> tensor3 \<Rightarrow> tensor4" where
  "e2e_attention_scores self w e =
     matmul4 (transpose_for_scores self (Linear_forward3 (e2e_query self) e))
       (transpose_0132 (attention_head_size self) (e2e_key_layer self w e))"

definition attention_scores :: "LukeSelfAttention \<Rightarrow> tensor3 \<Rightarrow> tensor3 option \<Rightarrow> tensor4" where
  \<comment> \<open>the score tensor before the division by \<^verbatim>\<open>math.sqrt(self.attention_head_size)\<close>\<close>
  "attention_scores self w e =
     (case e of
        Some ent \<Rightarrow>
          (let word_attention_scores =
                 concat_axis3 (w2w_attention_scores self w ent) (w2e_attention_scores self w ent);
               entity_attention_scores =
                 concat_axis3 (e2w_attention_scores self w ent) (e2e_attention_scores self w ent)
           in concat_axis2 word_attention_scores entity_attention_scores)
      | None \<Rightarrow>
          matmul4
            (transpose_for_scores self (Linear_forward3 (query self) (concat_hidden_states w e)))
            (transpose_0132 (attention_head_size self) (key_layer self w e)))"

definition scaled_attention_scores ::
  "LukeSelfAttention \<Rightarrow> tensor3 \<Rightarrow> tensor3 option \<Rightarrow> tensor4 option \<Rightarrow> tensor4" where
  \<comment> \<open>the argument of the softmax: scores divided by the root of the head size, plus the mask\<close>
  "scaled_attention_scores self w e attention_mask =
     (let scores = map (map (map (map (\<lambda>s. s / sqrt (real (attention_head_size self))))))
                     (attention_scores self w e)
      in case attention_mask of None \<Rightarrow> scores | Some m \<Rightarrow> add4 scores m)"

definition attention_probs ::
  "LukeSelfAttention \<Rightarrow> tensor3 \<Rightarrow> tensor3 option \<Rightarrow> tensor4 option \<Rightarrow> tensor4" where
  \<comment> \<open>the softmax over the last axis, before dropout\<close>
  "attention_probs self w e attention_mask =
     map (map (map softmax)) (scaled_attention_scores self w e attention_mask)"

definition dropped_attention_probs ::
  "LukeSelfAttention \<Rightarrow> tensor3 \<Rightarrow> tensor3 option \<Rightarrow> tensor4 option \<Rightarrow> tensor4" where
  \<comment> \<open>\<^verbatim>\<open>attention_probs\<close> after \<^verbatim>\<open>self.dropout\<close>: the weights of the value vectors\<close>
  "dropped_attention_probs self w e attention_mask =
     Dropout_forward4 (dropout self) (attention_probs self w e attention_mask)"

definition context_layer ::
  "LukeSelfAttention \<Rightarrow> tensor3 \<Rightarrow> tensor3 option \<Rightarrow> tensor4 option \<Rightarrow> tensor3" where
  "context_layer self w e attention_mask =
     (let probs = dropped_attention_probs self w e attention_mask;
          ctx = matmul4 probs (value_layer self w e);
          ctx = transpose_0213 (dim1 (concat_hidden_states w e)) ctx
      in map (map concat) ctx)"

definition LukeSelfAttention_forward ::
  "LukeSelfAttention \<Rightarrow> tensor3 \<Rightarrow> tensor3 option \<Rightarrow> tensor4 option \<Rightarrow> tensor3 \<times> tensor3 option" where
  "LukeSelfAttention_forward self word_hidden_states entity_hidden_states attention_mask =
     (let word_size = dim1 word_hidden_states;
          ctx = context_layer self word_hidden_states entity_hidden_states attention_mask;
          output_word_hidden_states = map (take word_size) ctx;
          output_entity_hidden_states =
            (case entity_hidden_states of
               None \<Rightarrow> None
             | Some _ \<Rightarrow> Some (map (drop word_size) ctx))
      in (output_word_hidden_states, output_entity_hidden_states))"


section \<open>The layers around the attention\<close>

subsection \<open>\<^verbatim>\<open>nn.LayerNorm\<close> and \<^verbatim>\<open>nn.Embedding\<close>\<close>

record LayerNorm =
  ln_weight :: vec
  ln_bias :: vec
  epsilon :: real

definition LayerNorm_forward :: "LayerNorm \<Rightarrow> vec \<Rightarrow> vec" where
  \<comment> \<open>normalisation of one vector of the last axis, with the biased variance\<close>
  "LayerNorm_forward nl x =
     (let n = real (length x);
          mean = sum_list x / n;
          var = sum_list (map (\<lambda>a. (a - mean)\<^sup>2) x) / n
      in map2 (\<lambda>a (g, b). (a - mean) / sqrt (var + epsilon nl) * g + b)
           x (zip (ln_weight nl) (ln_bias nl)))"

definition LayerNorm_forward3 :: "LayerNorm \<Rightarrow> tensor3 \<Rightarrow> tensor3" where
  "LayerNorm_forward3 nl x = map (map (LayerNorm_forward nl)) x"

text \<open>
  An embedding table returns the row of an index, and a row of zeros for the index
  \<open>padding_idx\<close>. The framework raises on an index outside the table.
\<close>

record Embedding =
  num_embeddings :: nat
  embedding_dim :: nat
  emb_weight :: tensor2  \<comment> \<open>shape \<open>[num_embeddings, embedding_dim]\<close>\<close>
  padding_idx :: "int option"

definition Embedding_forward :: "Embedding \<Rightarrow> int \<Rightarrow> vec" where
  "Embedding_forward emb i =
     (if padding_idx emb = Some i then replicate (embedding_dim emb) 0
      else emb_weight emb ! nat i)"

definition add3 :: "tensor3 \<Rightarrow> tensor3 \<Rightarrow> tensor3" where
  \<comment> \<open>\<^verbatim>\<open>x + y\<close> on two tensors of the same shape\<close>
  "add3 x y = map2 (map2 (map2 (+))) x y"

definition sum_axis0 :: "nat \<Rightarrow> tensor2 \<Rightarrow> vec" where
  \<comment> \<open>the sum of the rows of an \<open>[n, h]\<close> matrix; \<open>h\<close> is the extent of the rows\<close>
  "sum_axis0 h m = map (\<lambda>j. sum_list (column m j)) [0..<h]"

subsection \<open>\<^verbatim>\<open>LukeSelfOutput\<close>, \<^verbatim>\<open>LukeIntermediate\<close>, \<^verbatim>\<open>LukeOutput\<close>, \<^verbatim>\<open>LukePooler\<close>\<close>

record LukeSelfOutput =
  dense :: Linear
  layer_norm :: LayerNorm
  dropout :: Dropout

definition LukeSelfOutput_forward :: "LukeSelfOutput \<Rightarrow> tensor3 \<Rightarrow> tensor3 \<Rightarrow> tensor3" where
  "LukeSelfOutput_forward self hidden_states input_tensor =
     (let hidden_states = Linear_forward3 (LukeSelfOutput.dense self) hidden_states;
          hidden_states = Dropout_forward3 (LukeSelfOutput.dropout self) hidden_states
      in LayerNorm_forward3 (LukeSelfOutput.layer_norm self) (add3 hidden_states input_tensor))"

record LukeIntermediate =
  dense :: Linear
  intermediate_act_fn :: "real \<Rightarrow> real"
    \<comment> \<open>the elementwise function that \<^verbatim>\<open>get_activation(config.hidden_act)\<close> returns\<close>

definition LukeIntermediate_forward :: "LukeIntermediate \<Rightarrow> tensor3 \<Rightarrow> tensor3" where
  "LukeIntermediate_forward self hidden_states =
     (let hidden_states = Linear_forward3 (LukeIntermediate.dense self) hidden_states
      in map (map (map (intermediate_act_fn self))) hidden_states)"

record LukeOutput =
  dense :: Linear
  layer_norm :: LayerNorm
  dropout :: Dropout

definition LukeOutput_forward :: "LukeOutput \<Rightarrow> tensor3 \<Rightarrow> tensor3 \<Rightarrow> tensor3" where
  "LukeOutput_forward self hidden_states input_tensor =
     (let hidden_states = Linear_forward3 (LukeOutput.dense self) hidden_states;
          hidden_states = Dropout_forward3 (LukeOutput.dropout self) hidden_states
      in LayerNorm_forward3 (LukeOutput.layer_norm self) (add3 hidden_states input_tensor))"

record LukePooler =
  dense :: Linear

definition LukePooler_forward :: "LukePooler \<Rightarrow> tensor3 \<Rightarrow> tensor2 option" where
  \<comment> \<open>\<^verbatim>\<open>hidden_states[:, 0]\<close> raises on a sequence without a first token\<close>
  "LukePooler_forward self hidden_states =
     (if list_all (\<lambda>b. b \<noteq> []) hidden_states
      then (let first_token_tensor = map hd hidden_states;
                pooled_output = Linear_forward2 (LukePooler.dense self) first_token_tensor
            in Some (map (map tanh) pooled_output))
      else None)"

subsection \<open>\<^verbatim>\<open>EntityEmbeddings\<close>\<close>

record EntityEmbeddings =
  entity_emb_size :: nat
  hidden_size :: nat
  entity_embeddings :: Embedding
  entity_embedding_dense :: Linear  \<comment> \<open>used only when the two sizes differ\<close>
  position_embeddings :: Embedding
  token_type_embeddings :: Embedding
  layer_norm :: LayerNorm
  dropout :: Dropout

definition position_embedding_mask :: "int list \<Rightarrow> vec" where
  \<comment> \<open>\<^verbatim>\<open>(position_ids != -1).astype(dtype)\<close> for the position ids of one entity\<close>
  "position_embedding_mask ids = map (\<lambda>i. if i \<noteq> - 1 then 1 else 0) ids"

definition entity_position_term :: "EntityEmbeddings \<Rightarrow> int list \<Rightarrow> vec" where
  \<comment> \<open>the position embedding of one entity, from its row of position ids\<close>
  "entity_position_term self ids =
     (let embs = map (\<lambda>i. Embedding_forward (position_embeddings self) (max i 0)) ids;
          mask = position_embedding_mask ids;
          embs = map2 (\<lambda>v m. map (\<lambda>x. x * m) v) embs mask;
          embs = sum_axis0 (embedding_dim (position_embeddings self)) embs
      in map (\<lambda>x. x / max (sum_list mask) (1 / 10 ^ 7)) embs)"

definition entity_position_embeddings :: "EntityEmbeddings \<Rightarrow> int list list list \<Rightarrow> tensor3" where
  \<comment> \<open>the tensor \<^verbatim>\<open>position_embeddings\<close> that is added to the entity embeddings\<close>
  "entity_position_embeddings self position_ids = map (map (entity_position_term self)) position_ids"

definition EntityEmbeddings_forward ::
  "EntityEmbeddings \<Rightarrow> int list list \<Rightarrow> int list list list \<Rightarrow> int list list option \<Rightarrow> tensor3" where
  "EntityEmbeddings_forward self entity_ids position_ids token_type_ids =
     (let token_type_ids =
            (case token_type_ids of None \<Rightarrow> map (map (\<lambda>_. 0)) entity_ids | Some t \<Rightarrow> t);
          entity_embs =
            map (map (Embedding_forward (EntityEmbeddings.entity_embeddings self))) entity_ids;
          entity_embs =
            (if entity_emb_size self \<noteq> hidden_size self
             then Linear_forward3 (entity_embedding_dense self) entity_embs
             else entity_embs);
          position_embs = entity_position_embeddings self position_ids;
          token_type_embs =
            map (map (Embedding_forward (token_type_embeddings self))) token_type_ids;
          embs = add3 (add3 entity_embs position_embs) token_type_embs;
          embs = LayerNorm_forward3 (EntityEmbeddings.layer_norm self) embs
      in Dropout_forward3 (EntityEmbeddings.dropout self) embs)"

subsection \<open>\<^verbatim>\<open>LukeAttention\<close>, \<^verbatim>\<open>LukeLayer\<close>, \<^verbatim>\<open>LukeEncoder\<close>\<close>

record LukeAttention =
  self_attention :: LukeSelfAttention  \<comment> \<open>the attribute \<^verbatim>\<open>self.self\<close>\<close>
  "output" :: LukeSelfOutput

definition LukeAttention_forward ::
  "LukeAttention \<Rightarrow> tensor3 \<Rightarrow> tensor3 option \<Rightarrow> tensor4 option \<Rightarrow> tensor3 \<times> tensor3 option" where
  "LukeAttention_forward self word_hidden_states entity_hidden_states attention_mask =
     (let word_size = dim1 word_hidden_states;
          self_outputs = LukeSelfAttention_forward (self_attention self)
                           word_hidden_states entity_hidden_states attention_mask;
          concat_self_outputs =
            (case entity_hidden_states of
               None \<Rightarrow> fst self_outputs
             | Some _ \<Rightarrow> concat_hidden_states (fst self_outputs) (snd self_outputs));
          concat_states = concat_hidden_states word_hidden_states entity_hidden_states;
          attention_output =
            LukeSelfOutput_forward (LukeAttention.output self) concat_self_outputs concat_states;
          word_attention_output = map (take word_size) attention_output;
          entity_attention_output =
            (case entity_hidden_states of
               None \<Rightarrow> None
             | Some _ \<Rightarrow> Some (map (drop word_size) attention_output))
      in (word_attention_output, entity_attention_output))"

record LukeLayer =
  attention :: LukeAttention
  intermediate :: LukeIntermediate
  "output" :: LukeOutput

definition feed_forward_chunk :: "LukeLayer \<Rightarrow> tensor3 \<Rightarrow> tensor3" where
  "feed_forward_chunk self attention_output =
     (let intermediate_output = LukeIntermediate_forward (intermediate self) attention_output
      in LukeOutput_forward (LukeLayer.output self) intermediate_output attention_output)"

definition LukeLayer_forward ::
  "LukeLayer \<Rightarrow> tensor3 \<Rightarrow> tensor3 option \<Rightarrow> tensor4 option \<Rightarrow> tensor3 \<times> tensor3 option" where
  "LukeLayer_forward self word_hidden_states entity_hidden_states attention_mask =
     (let word_size = dim1 word_hidden_states;
          self_attention_outputs = LukeAttention_forward (attention self)
                                     word_hidden_states entity_hidden_states attention_mask;
          concat_attention_output =
            (case entity_hidden_states of
               None \<Rightarrow> fst self_attention_outputs
             | Some _ \<Rightarrow>
                 concat_hidden_states (fst self_attention_outputs) (snd self_attention_outputs));
          layer_output = feed_forward_chunk self concat_attention_output;
          word_layer_output = map (take word_size) layer_output;
          entity_layer_output =
            (case entity_hidden_states of
               None \<Rightarrow> None
             | Some _ \<Rightarrow> Some (map (drop word_size) layer_output))
      in (word_layer_output, entity_layer_output))"

fun LukeEncoder_forward ::
  "LukeLayer list \<Rightarrow> tensor3 \<Rightarrow> tensor3 option \<Rightarrow> tensor4 option \<Rightarrow> tensor3 \<times> tensor3 option" where
  "LukeEncoder_forward [] word_hidden_states entity_hidden_states attention_mask =
     (word_hidden_states, entity_hidden_states)"
| "LukeEncoder_forward (layer_module # rest) word_hidden_states entity_hidden_states attention_mask =
     (let layer_outputs =
            LukeLayer_forward layer_module word_hidden_states entity_hidden_states attention_mask;
          word_hidden_states = fst layer_outputs;
          entity_hidden_states =
            (case entity_hidden_states of None \<Rightarrow> None | Some _ \<Rightarrow> snd layer_outputs)
      in LukeEncoder_forward rest word_hidden_states entity_hidden_states attention_mask)"

section \<open>\<^verbatim>\<open>LukeModel\<close>\<close>

text \<open>
  The word embedding layer \<^verbatim>\<open>LukeEmbeddings\<close> only calls \<^verbatim>\<open>RobertaEmbeddings\<close>, which is
  defined in another module. It is the field \<open>embeddings\<close>, a function of the three
  arguments \<^verbatim>\<open>input_ids\<close>, \<^verbatim>\<open>token_type_ids\<close> and \<^verbatim>\<open>position_ids\<close>.

  An attention mask is given with rank 2 or with rank 4. The entity arguments are all
  optional in the signature; with \<^verbatim>\<open>entity_ids\<close> given and \<^verbatim>\<open>entity_position_ids\<close>
  missing the call raises, which is the result \<open>None\<close>.
\<close>

datatype mask_arg = Mask2 tensor2 | Mask4 tensor4

record LukeModel =
  pad_token_id :: int
  entity_pad_token_id :: int
  encoder :: "LukeLayer list"
  embeddings :: "int list list \<Rightarrow> int list list option \<Rightarrow> int list list option \<Rightarrow> tensor3"
  entity_embeddings :: EntityEmbeddings
  pooler :: LukePooler

definition pad_mask :: "int \<Rightarrow> int list list \<Rightarrow> tensor4" where
  \<comment> \<open>\<^verbatim>\<open>paddle.unsqueeze((ids == pad).astype(dtype) * -1e4, axis=[1, 2])\<close>\<close>
  "pad_mask pad ids = map (\<lambda>row. [[map (\<lambda>i. if i = pad then - 10000 else 0) row]]) ids"

definition extend_mask :: "mask_arg \<Rightarrow> tensor4" where
  \<comment> \<open>a mask of rank 2 becomes \<^verbatim>\<open>(1.0 - mask.unsqueeze(axis=[1, 2])) * -1e4\<close>\<close>
  "extend_mask m =
     (case m of
        Mask2 m2 \<Rightarrow> map (\<lambda>row. [[map (\<lambda>a. (1 - a) * - 10000) row]]) m2
      | Mask4 m4 \<Rightarrow> m4)"

definition LukeModel_attention_mask ::
  "LukeModel \<Rightarrow> int list list \<Rightarrow> mask_arg option \<Rightarrow> int list list option \<Rightarrow> mask_arg option
     \<Rightarrow> tensor4" where
  \<comment> \<open>the mask that \<^verbatim>\<open>LukeModel.forward\<close> passes to the encoder\<close>
  "LukeModel_attention_mask self input_ids attention_mask entity_ids entity_attention_mask =
     (let attention_mask =
            (case attention_mask of
               None \<Rightarrow> pad_mask (pad_token_id self) input_ids
             | Some m \<Rightarrow> extend_mask m)
      in case entity_ids of
           None \<Rightarrow> attention_mask
         | Some ids \<Rightarrow>
             (let entity_attention_mask =
                    (case entity_attention_mask of
                       None \<Rightarrow> pad_mask (entity_pad_token_id self) ids
                     | Some m \<Rightarrow> extend_mask m)
              in concat_axis3 attention_mask entity_attention_mask))"

definition LukeModel_forward ::
  "LukeModel \<Rightarrow> int list list \<Rightarrow> int list list option \<Rightarrow> int list list option
     \<Rightarrow> mask_arg option \<Rightarrow> int list list option \<Rightarrow> int list list list option
     \<Rightarrow> int list list option \<Rightarrow> mask_arg option
     \<Rightarrow> (tensor3 \<times> tensor3 option \<times> tensor2) option" where
  "LukeModel_forward self input_ids token_type_ids position_ids attention_mask
     entity_ids entity_position_ids entity_token_type_ids entity_attention_mask =
     (let batch_size = length input_ids;
          attention_mask = LukeModel_attention_mask self input_ids attention_mask
                             entity_ids entity_attention_mask;
          word_embedding_output = embeddings self input_ids token_type_ids position_ids;
          entity_embedding_output =
            (case entity_ids of
               None \<Rightarrow> Some None
             | Some ids \<Rightarrow>
                 (case entity_position_ids of
                    None \<Rightarrow> None
                  | Some pos \<Rightarrow>
                      (let entity_seq_length = dim1 ids;
                           entity_token_type_ids =
                             (case entity_token_type_ids of
                                None \<Rightarrow> replicate batch_size (replicate entity_seq_length 0)
                              | Some t \<Rightarrow> t)
                       in Some (Some (EntityEmbeddings_forward (LukeModel.entity_embeddings self)
                                        ids pos (Some entity_token_type_ids))))))
      in case entity_embedding_output of
           None \<Rightarrow> None
         | Some entity_embedding_output \<Rightarrow>
             (let encoder_outputs = LukeEncoder_forward (encoder self)
                    word_embedding_output entity_embedding_output (Some attention_mask);
                  sequence_output = fst encoder_outputs
              in case LukePooler_forward (pooler self) sequence_output of
                   None \<Rightarrow> None
                 | Some pooled_output \<Rightarrow>
                     Some (sequence_output, snd encoder_outputs, pooled_output)))"

section \<open>\<^verbatim>\<open>LukeForQuestionAnswering\<close>\<close>

record LukeForQuestionAnswering =
  luke :: LukeModel
  qa_outputs :: Linear  \<comment> \<open>\<^verbatim>\<open>nn.Linear(hidden_size, 2)\<close>\<close>

definition qa_word_hidden_states :: "int list list \<Rightarrow> tensor3 \<Rightarrow> tensor3" where
  \<comment> \<open>\<^verbatim>\<open>encoder_outputs[0][:, : input_ids.shape[1], :]\<close>\<close>
  "qa_word_hidden_states input_ids sequence_output = map (take (dim1 input_ids)) sequence_output"

definition LukeForQuestionAnswering_forward ::
  "LukeForQuestionAnswering \<Rightarrow> int list list \<Rightarrow> int list list option \<Rightarrow> int list list option
     \<Rightarrow> mask_arg option \<Rightarrow> int list list option \<Rightarrow> int list list list option
     \<Rightarrow> int list list option \<Rightarrow> mask_arg option \<Rightarrow> (tensor2 \<times> tensor2) option" where
  "LukeForQuestionAnswering_forward self input_ids token_type_ids position_ids attention_mask
     entity_ids entity_position_ids entity_token_type_ids entity_attention_mask =
     (case LukeModel_forward (luke self) input_ids token_type_ids position_ids attention_mask
             entity_ids entity_position_ids entity_token_type_ids entity_attention_mask of
        None \<Rightarrow> None
      | Some encoder_outputs \<Rightarrow>
          (let word_hidden_states = qa_word_hidden_states input_ids (fst encoder_outputs);
               logits = Linear_forward3 (qa_outputs self) word_hidden_states;
               start_logits = map (map (\<lambda>v. v ! 0)) logits;
               end_logits = map (map (\<lambda>v. v ! 1)) logits
           in Some (start_logits, end_logits)))"

section \<open>\<^verbatim>\<open>paddle_gather\<close>\<close>

text \<open>
  \<^verbatim>\<open>paddle_gather\<close> works on tensors of any rank, through \<^verbatim>\<open>flatten\<close>, \<^verbatim>\<open>reshape\<close>,
  \<^verbatim>\<open>expand\<close>, \<^verbatim>\<open>stack\<close>, \<^verbatim>\<open>transpose\<close> and \<^verbatim>\<open>gather_nd\<close>. For these a tensor is its
  shape together with its entries in row-major order.
\<close>

record 'a tensor =
  shape :: "nat list"
  data :: "'a list"

fun ravel :: "nat list \<Rightarrow> nat list \<Rightarrow> nat" where
  \<comment> \<open>the row-major position of a multi-index in a tensor of the given shape\<close>
  "ravel (d # ds) (i # is) = i * prod_list ds + ravel ds is"
| "ravel _ _ = 0"

fun unravel :: "nat list \<Rightarrow> nat \<Rightarrow> nat list" where
  \<comment> \<open>the multi-index of a row-major position\<close>
  "unravel [] j = []"
| "unravel (d # ds) j = (j div prod_list ds) # unravel ds (j mod prod_list ds)"

definition entry :: "'a tensor \<Rightarrow> nat list \<Rightarrow> 'a" where
  \<comment> \<open>the entry \<open>t[i_0, ..., i_{n-1}]\<close>\<close>
  "entry t idx = data t ! ravel (shape t) idx"

definition flatten :: "'a tensor \<Rightarrow> 'a tensor" where
  "flatten t = \<lparr>shape = [prod_list (shape t)], data = data t\<rparr>"

definition reshape :: "'a tensor \<Rightarrow> nat list \<Rightarrow> 'a tensor" where
  "reshape t s = \<lparr>shape = s, data = data t\<rparr>"

definition arange :: "nat \<Rightarrow> int tensor" where
  "arange n = \<lparr>shape = [n], data = map int [0..<n]\<rparr>"

definition broadcast_index :: "nat list \<Rightarrow> nat list \<Rightarrow> nat list" where
  \<comment> \<open>the multi-index into a tensor of shape \<open>src\<close> that an expansion reads for the
      multi-index \<open>idx\<close> of the result: trailing axes are aligned, an axis of extent 1 is
      read at 0\<close>
  "broadcast_index src idx =
     map2 (\<lambda>d i. if d = 1 then 0 else i) src (drop (length idx - length src) idx)"

definition expand :: "'a tensor \<Rightarrow> nat list \<Rightarrow> 'a tensor" where
  \<comment> \<open>\<^verbatim>\<open>paddle.expand(t, s)\<close>\<close>
  "expand t s =
     \<lparr>shape = s,
      data = map (\<lambda>j. entry t (broadcast_index (shape t) (unravel s j))) [0..<prod_list s]\<rparr>"

definition stack :: "'a tensor list \<Rightarrow> 'a tensor" where
  \<comment> \<open>\<^verbatim>\<open>paddle.stack\<close> of tensors of one shape, along a new first axis\<close>
  "stack ts =
     \<lparr>shape = length ts # (case ts of [] \<Rightarrow> [] | t # _ \<Rightarrow> shape t),
      data = concat (map data ts)\<rparr>"

definition transpose_10 :: "'a tensor \<Rightarrow> 'a tensor" where
  \<comment> \<open>\<^verbatim>\<open>paddle.transpose(t, [1, 0])\<close> of a matrix\<close>
  "transpose_10 t =
     (let n = shape t ! 0; m = shape t ! 1
      in \<lparr>shape = [m, n],
          data = map (\<lambda>q. data t ! ((q mod n) * m + q div n)) [0..<m * n]\<rparr>)"

definition gather_nd :: "'a tensor \<Rightarrow> int tensor \<Rightarrow> 'a tensor" where
  \<comment> \<open>\<^verbatim>\<open>paddle.gather_nd(x, ind)\<close> for \<open>ind\<close> of shape \<open>[m, r]\<close> with \<open>r\<close> the rank of \<open>x\<close>:
      one entry of \<open>x\<close> for each row of \<open>ind\<close>\<close>
  "gather_nd x ind =
     (let m = shape ind ! 0; r = shape ind ! 1
      in \<lparr>shape = [m],
          data = map (\<lambda>j. entry x (map (\<lambda>k. nat (data ind ! (j * r + k))) [0..<r])) [0..<m]\<rparr>)"

definition nd_index :: "'a tensor \<Rightarrow> int \<Rightarrow> int tensor \<Rightarrow> nat \<Rightarrow> int tensor" where
  \<comment> \<open>the entry that the loop of \<^verbatim>\<open>paddle_gather\<close> appends for the axis \<open>k\<close>\<close>
  "nd_index x dm index k =
     (if int k = dm then flatten index
      else (let reshape_shape = (replicate (length (shape x)) 1)[k := shape x ! k];
                x_arange = reshape (arange (shape x ! k)) reshape_shape
            in flatten (expand x_arange (shape index))))"

text \<open>The argument \<^verbatim>\<open>dim\<close> is written \<open>dm\<close>.\<close>

definition paddle_gather :: "'a tensor \<Rightarrow> int \<Rightarrow> int tensor \<Rightarrow> 'a tensor" where
  "paddle_gather x dm index =
     (let index_shape = shape index;
          dm = (if dm < 0 then int (length (shape x)) + dm else dm);
          ind2 = transpose_10 (stack (map (nd_index x dm index) [0..<length (shape x)]))
      in reshape (gather_nd x ind2) index_shape)"

section \<open>\<^verbatim>\<open>LukeForEntitySpanClassification\<close>\<close>




record LukeForEntitySpanClassification =
  luke :: LukeModel
  dropout :: Dropout
  classifier :: Linear  \<comment> \<open>\<^verbatim>\<open>nn.Linear(hidden_size * 3, num_labels)\<close>\<close>



subsection \<open>Reading the score tensor as a block matrix\<close>

definition times_transposed :: "tensor2 \<Rightarrow> tensor2 \<Rightarrow> tensor2" where
  \<comment> \<open>\<open>q\<close> times the transpose of \<open>k\<close>: entry \<open>(i, j)\<close> is the dot product of row \<open>i\<close> of \<open>q\<close> and row \<open>j\<close> of \<open>k\<close>\<close>
  "times_transposed q k = map (\<lambda>qr. map (dot qr) k) q"

definition block_matrix :: "tensor2 \<Rightarrow> tensor2 \<Rightarrow> tensor2 \<Rightarrow> tensor2 \<Rightarrow> tensor2" where
  \<comment> \<open>the matrix with \<open>a\<close> and \<open>b\<close> side by side above \<open>c\<close> and \<open>d\<close> side by side\<close>
  "block_matrix a b c d = concat_axis1 a b @ concat_axis1 c d"

definition projected_heads :: "LukeSelfAttention \<Rightarrow> Linear \<Rightarrow> tensor3 \<Rightarrow> nat \<Rightarrow> nat \<Rightarrow> tensor2" where
  \<comment> \<open>the projection \<open>l\<close> of the states \<open>x\<close>, for batch entry \<open>b\<close> and head \<open>h\<close>:
      one row of \<open>attention_head_size\<close> numbers per position\<close>
  "projected_heads self l x b h = transpose_for_scores self (Linear_forward3 l x) ! b ! h"

subsection \<open>The mean of the position embeddings of an entity\<close>



subsection \<open>Shapes\<close>




subsection \<open>Replacing the entity query projections\<close>


subsection \<open>Multi-indices\<close>

definition valid_index :: "nat list \<Rightarrow> nat list \<Rightarrow> bool" where
  \<comment> \<open>\<open>idx\<close> is a multi-index into a tensor of shape \<open>shp\<close>\<close>
  "valid_index shp idx = list_all2 (\<lambda>i d. i < d) idx shp"

subsection \<open>The word states at given positions\<close>



subsection \<open>A small attention layer\<close>

definition example_linear :: "tensor2 \<Rightarrow> Linear" where
  "example_linear m = \<lparr>in_features = 2, out_features = 2, Linear.weight = m, Linear.bias = Some [0, 0]\<rparr>"

definition example_dropout :: Dropout where
  "example_dropout = \<lparr>drop_prob = 0, training = False, keep = (\<lambda>_. True)\<rparr>"

definition example_attention :: LukeSelfAttention where
  "example_attention =
     \<lparr>num_attention_heads = 2, attention_head_size = 1,
      query = example_linear [[1, 0], [0, 1]],
      key = example_linear [[1, 0], [0, 1]],
      value = example_linear [[1, 0], [0, 1]],
      w2e_query = example_linear [[2, 0], [0, 2]],
      e2w_query = example_linear [[0, 1], [1, 0]],
      e2e_query = example_linear [[1, 1], [1, 1]],
      LukeSelfAttention.dropout = example_dropout\<rparr>"

definition example_words :: tensor3 where
  "example_words = [[[1, 2]]]"

definition example_entities :: tensor3 where
  "example_entities = [[[3, 4]]]"



definition example_layer_norm :: LayerNorm where
  \<comment> \<open>weights 1, biases 0, and the module's \<^verbatim>\<open>layer_norm_eps = 1e-6\<close>\<close>
  "example_layer_norm = \<lparr>ln_weight = [1, 1], ln_bias = [0, 0], epsilon = 1 / 10 ^ 6\<rparr>"

definition example_table :: "tensor2 \<Rightarrow> int option \<Rightarrow> Embedding" where
  "example_table rows pad =
     \<lparr>num_embeddings = length rows, embedding_dim = 2, emb_weight = rows, padding_idx = pad\<rparr>"


subsection \<open>A small model with one layer\<close>

definition zero_linear :: Linear where
  "zero_linear = example_linear [[0, 0], [0, 0]]"

definition identity_linear :: Linear where
  "identity_linear = example_linear [[1, 0], [0, 1]]"

definition joint_attention :: LukeSelfAttention where
  \<comment> \<open>one head; all queries and keys are zero, the values are the hidden states\<close>
  "joint_attention =
     \<lparr>num_attention_heads = 1, attention_head_size = 2,
      query = zero_linear, key = zero_linear, value = identity_linear,
      w2e_query = zero_linear, e2w_query = zero_linear, e2e_query = zero_linear,
      LukeSelfAttention.dropout = example_dropout\<rparr>"

definition joint_layer :: LukeLayer where
  "joint_layer =
     \<lparr>attention =
        \<lparr>self_attention = joint_attention,
         LukeAttention.output =
           \<lparr>LukeSelfOutput.dense = identity_linear,
            LukeSelfOutput.layer_norm = example_layer_norm,
            LukeSelfOutput.dropout = example_dropout\<rparr>\<rparr>,
      intermediate =
        \<lparr>LukeIntermediate.dense = zero_linear, intermediate_act_fn = (\<lambda>x. max 0 x)\<rparr>,
      LukeLayer.output =
        \<lparr>LukeOutput.dense = zero_linear,
         LukeOutput.layer_norm = example_layer_norm,
         LukeOutput.dropout = example_dropout\<rparr>\<rparr>"

definition joint_entity_embeddings :: EntityEmbeddings where
  "joint_entity_embeddings =
     \<lparr>entity_emb_size = 2, hidden_size = 2,
      EntityEmbeddings.entity_embeddings = example_table [[0, 0], [0, 0], [2, 0]] (Some 0),
      entity_embedding_dense = identity_linear,
      position_embeddings = example_table [[0, 0]] None,
      token_type_embeddings = example_table [[0, 0]] None,
      EntityEmbeddings.layer_norm = example_layer_norm,
      EntityEmbeddings.dropout = example_dropout\<rparr>"

definition joint_luke :: LukeModel where
  \<comment> \<open>the word embedding layer with all its parameters zero returns zero vectors\<close>
  "joint_luke =
     \<lparr>pad_token_id = 1, entity_pad_token_id = 0,
      encoder = [joint_layer],
      embeddings = (\<lambda>input_ids token_type_ids position_ids. map (map (\<lambda>_. [0, 0])) input_ids),
      LukeModel.entity_embeddings = joint_entity_embeddings,
      pooler = \<lparr>LukePooler.dense = identity_linear\<rparr>\<rparr>"

definition normalised :: "real \<Rightarrow> real" where
  \<comment> \<open>the first component of the layer normalisation of the vector \<open>[d, - d]\<close>\<close>
  "normalised d = d / sqrt (d\<^sup>2 + 1 / 10 ^ 6)"

subsection \<open>A gather along the last axis\<close>

definition gather_x :: "int tensor" where
  "gather_x = \<lparr>shape = [2, 3], data = [10, 11, 12, 20, 21, 22]\<rparr>"

definition gather_index :: "int tensor" where
  "gather_index = \<lparr>shape = [2, 2], data = [2, 0, 1, 1]\<rparr>"

subsection \<open>A span classification head on the small model\<close>


section \<open>Properties of the attention layer\<close>

lemma map_concat_axis1: "map (map f) (concat_axis1 x y) = concat_axis1 (map (map f) x) (map (map f) y)"
  unfolding concat_axis1_def
  by (induction x arbitrary: y) (auto split: list.splits simp: zip_Cons1)

lemma Linear_forward3_concat:
  "Linear_forward3 l (concat_axis1 w e) = concat_axis1 (Linear_forward3 l w) (Linear_forward3 l e)"
  unfolding Linear_forward3_def Linear_forward2_def
  using map_concat_axis1[of "Linear_forward l" w e] by simp

lemma column_append: "column (a @ b) j = column a j @ column b j"
  by (simp add: column_def)

lemma swap_axes_append: "swap_axes n (a @ b) = concat_axis1 (swap_axes n a) (swap_axes n b)"
  unfolding swap_axes_def concat_axis1_def
  by (simp add: column_append zip_map_map zip_same_conv_map)

lemma transpose_for_scores_concat:
  "transpose_for_scores self (concat_axis1 w e) =
     concat_axis2 (transpose_for_scores self w) (transpose_for_scores self e)"
  unfolding transpose_for_scores_def transpose_0213_def concat_axis2_def
  apply (simp add: map_concat_axis1)
  unfolding concat_axis1_def
  by (induction w arbitrary: e) (auto split: list.splits simp: zip_Cons1 swap_axes_append concat_axis1_def)

lemma column_map_nth: "h < n \<Longrightarrow> column (map (\<lambda>r. map (g r) [0..<n]) xb) h = map (\<lambda>r. g r h) xb"
  by (simp add: column_def)

lemma transpose_for_scores_expand:
  "transpose_for_scores self x =
     map (\<lambda>xb. map (\<lambda>h. map (\<lambda>r. take (attention_head_size self) (drop (h * attention_head_size self) r)) xb)
                   [0..<num_attention_heads self]) x"
  unfolding transpose_for_scores_def transpose_0213_def swap_axes_def split_heads_def
  by (simp add: column_map_nth)

lemma length_transpose_for_scores [simp]: "length (transpose_for_scores self x) = length x"
  by (simp add: transpose_for_scores_expand)

lemma length_Linear_forward3 [simp]: "length (Linear_forward3 l x) = length x"
  by (simp add: Linear_forward3_def)

lemma take_concat_axis2_tfs:
  assumes "length e = length w" and "\<forall>wb\<in>set w. length wb = n"
  shows "map (map (take n)) (concat_axis2 (transpose_for_scores self w) (transpose_for_scores self e))
           = transpose_for_scores self w"
  using assms
proof (induction w arbitrary: e)
  case Nil
  then show ?case by (simp add: concat_axis2_def transpose_for_scores_expand)
next
  case (Cons wb w)
  then obtain eb e' where e: "e = eb # e'" by (cases e) auto
  with Cons show ?case
    by (simp add: concat_axis2_def concat_axis1_def transpose_for_scores_expand
        zip_map_map zip_same_conv_map)
qed

lemma drop_concat_axis2_tfs:
  assumes "length e = length w" and "\<forall>wb\<in>set w. length wb = n"
  shows "map (map (drop n)) (concat_axis2 (transpose_for_scores self w) (transpose_for_scores self e))
           = transpose_for_scores self e"
  using assms
proof (induction w arbitrary: e)
  case Nil
  then show ?case by (simp add: concat_axis2_def transpose_for_scores_expand)
next
  case (Cons wb w)
  then obtain eb e' where e: "e = eb # e'" by (cases e) auto
  with Cons show ?case
    by (simp add: concat_axis2_def concat_axis1_def transpose_for_scores_expand
        zip_map_map zip_same_conv_map)
qed

lemma key_layer_Some:
  "key_layer self w (Some e) =
     concat_axis2 (transpose_for_scores self (Linear_forward3 (key self) w))
                  (transpose_for_scores self (Linear_forward3 (key self) e))"
  by (simp add: key_layer_def concat_hidden_states_def Linear_forward3_concat transpose_for_scores_concat)

lemma value_layer_Some:
  "value_layer self w (Some e) =
     concat_axis2 (transpose_for_scores self (Linear_forward3 (value self) w))
                  (transpose_for_scores self (Linear_forward3 (value self) e))"
  by (simp add: value_layer_def concat_hidden_states_def Linear_forward3_concat transpose_for_scores_concat)

lemma Linear_forward3_rows:
  "\<forall>wb\<in>set w. length wb = n \<Longrightarrow> \<forall>wb\<in>set (Linear_forward3 l w). length wb = n"
  by (auto simp: Linear_forward3_def Linear_forward2_def)

lemma word_key_block:
  assumes "length e = length w" and "\<forall>wb\<in>set w. length wb = dim1 w"
  shows "map (map (take (dim1 w))) (key_layer self w (Some e))
           = transpose_for_scores self (Linear_forward3 (key self) w)"
proof -
  have "length (Linear_forward3 (key self) e) = length (Linear_forward3 (key self) w)"
    using assms(1) by simp
  moreover have "\<forall>wb\<in>set (Linear_forward3 (key self) w). length wb = dim1 w"
    using assms(2) by (rule Linear_forward3_rows)
  ultimately show ?thesis
    unfolding key_layer_Some by (rule take_concat_axis2_tfs)
qed

lemma entity_key_block:
  assumes "length e = length w" and "\<forall>wb\<in>set w. length wb = dim1 w"
  shows "map (map (drop (dim1 w))) (key_layer self w (Some e))
           = transpose_for_scores self (Linear_forward3 (key self) e)"
proof -
  have "length (Linear_forward3 (key self) e) = length (Linear_forward3 (key self) w)"
    using assms(1) by simp
  moreover have "\<forall>wb\<in>set (Linear_forward3 (key self) w). length wb = dim1 w"
    using assms(2) by (rule Linear_forward3_rows)
  ultimately show ?thesis
    unfolding key_layer_Some by (rule drop_concat_axis2_tfs)
qed

text \<open>
  Claim C9. With entity states present, the key vectors are computed once, by the
  projection \<open>key\<close> on the concatenated word and entity states, and then sliced. The
  word-to-word and the entity-to-word stream use the same block, which is the key
  projection of the word states; the word-to-entity and the entity-to-entity stream use
  the same block, which is the key projection of the entity states. The value vectors come
  from the single projection \<open>value\<close> in the same way. The streams differ in their query
  projections only.
\<close>

theorem key_and_value_shared_by_streams:
  assumes "length e = length w" and "\<forall>wb\<in>set w. length wb = dim1 w"
  shows "key_layer self w (Some e) =
           transpose_for_scores self (Linear_forward3 (key self) (concat_axis1 w e))
       \<and> value_layer self w (Some e) =
           transpose_for_scores self (Linear_forward3 (value self) (concat_axis1 w e))
       \<and> w2w_key_layer self w e = transpose_for_scores self (Linear_forward3 (key self) w)
       \<and> e2w_key_layer self w e = w2w_key_layer self w e
       \<and> w2e_key_layer self w e = transpose_for_scores self (Linear_forward3 (key self) e)
       \<and> e2e_key_layer self w e = w2e_key_layer self w e
       \<and> value_layer self w (Some e) =
           concat_axis2 (transpose_for_scores self (Linear_forward3 (value self) w))
                        (transpose_for_scores self (Linear_forward3 (value self) e))"
proof -
  have "w2w_key_layer self w e = transpose_for_scores self (Linear_forward3 (key self) w)"
    unfolding w2w_key_layer_def using assms by (rule word_key_block)
  moreover have "w2e_key_layer self w e = transpose_for_scores self (Linear_forward3 (key self) e)"
    unfolding w2e_key_layer_def using assms by (rule entity_key_block)
  moreover have "e2w_key_layer self w e = w2w_key_layer self w e"
    by (simp add: e2w_key_layer_def w2w_key_layer_def)
  moreover have "e2e_key_layer self w e = w2e_key_layer self w e"
    by (simp add: e2e_key_layer_def w2e_key_layer_def)
  moreover have "key_layer self w (Some e) =
           transpose_for_scores self (Linear_forward3 (key self) (concat_axis1 w e))"
    by (simp add: key_layer_def concat_hidden_states_def)
  moreover have "value_layer self w (Some e) =
           transpose_for_scores self (Linear_forward3 (value self) (concat_axis1 w e))"
    by (simp add: value_layer_def concat_hidden_states_def)
  ultimately show ?thesis by (simp add: value_layer_Some)
qed

lemma column_swap_axes:
  assumes "j < length k" and "length (k ! j) = d"
  shows "column (swap_axes d k) j = k ! j"
proof -
  have "column (swap_axes d k) j = map (\<lambda>i. k ! j ! i) [0..<d]"
    using assms by (simp add: column_def swap_axes_def)
  also have "\<dots> = k ! j"
    using map_nth[of "k ! j"] assms(2) by simp
  finally show ?thesis .
qed

lemma dim1_swap_axes: "0 < d \<Longrightarrow> dim1 (swap_axes d k) = length k"
  by (cases d) (simp_all add: dim1_def swap_axes_def column_def upt_rec del: upt_Suc)

lemma matmul2_swap_axes:
  assumes "0 < d" and "\<forall>r\<in>set k. length r = d"
  shows "matmul2 q (swap_axes d k) = times_transposed q k"
proof -
  have "map (\<lambda>j. dot qr (column (swap_axes d k) j)) [0..<length k] = map (dot qr) k" for qr
  proof -
    have "map (\<lambda>j. dot qr (column (swap_axes d k) j)) [0..<length k]
            = map (\<lambda>j. dot qr (k ! j)) [0..<length k]"
      using assms(2) by (intro map_cong refl) (simp add: column_swap_axes)
    also have "\<dots> = map (dot qr) (map (\<lambda>j. k ! j) [0..<length k])"
      by simp
    also have "\<dots> = map (dot qr) k"
      by (simp only: map_nth)
    finally show ?thesis .
  qed
  then show ?thesis
    using assms(1) by (simp add: matmul2_def times_transposed_def dim1_swap_axes)
qed

lemma length_Linear_forward [simp]: "length (Linear_forward l x) = out_features l"
  by (simp add: Linear_forward_def)

lemma nth_transpose_for_scores:
  assumes "b < length x" and "h < num_attention_heads self"
  shows "transpose_for_scores self x ! b ! h =
           map (\<lambda>r. take (attention_head_size self) (drop (h * attention_head_size self) r)) (x ! b)"
  using assms by (simp add: transpose_for_scores_expand)

lemma length_nth_transpose_for_scores:
  "b < length x \<Longrightarrow> length (transpose_for_scores self x ! b) = num_attention_heads self"
  by (simp add: transpose_for_scores_expand)

lemma head_rows_length:
  assumes "b < length x" and "h < num_attention_heads self"
    and "out_features l = all_head_size self"
  shows "\<forall>r\<in>set (transpose_for_scores self (Linear_forward3 l x) ! b ! h).
           length r = attention_head_size self"
proof -
  have "(h + 1) * attention_head_size self \<le> all_head_size self"
    unfolding all_head_size_def using assms(2) by (intro mult_le_mono1) simp
  then have "attention_head_size self \<le> all_head_size self - h * attention_head_size self"
    by simp
  then show ?thesis
    using assms by (auto simp: nth_transpose_for_scores Linear_forward3_def Linear_forward2_def)
qed

lemma nth_concat_axis2:
  assumes "b < length x" "b < length y" "h < length (x ! b)" "h < length (y ! b)"
  shows "concat_axis2 x y ! b ! h = x ! b ! h @ y ! b ! h"
  using assms by (simp add: concat_axis2_def concat_axis1_def)

lemma nth_concat_axis3:
  assumes "b < length x" "b < length y" "h < length (x ! b)" "h < length (y ! b)"
  shows "concat_axis3 x y ! b ! h = concat_axis1 (x ! b ! h) (y ! b ! h)"
  using assms by (simp add: concat_axis3_def concat_axis2_def)

lemma nth_matmul4:
  assumes "b < length x" "b < length y" "h < length (x ! b)" "h < length (y ! b)"
  shows "matmul4 x y ! b ! h = matmul2 (x ! b ! h) (y ! b ! h)"
  using assms by (simp add: matmul4_def)

lemma length_matmul4: "length (matmul4 x y) = min (length x) (length y)"
  by (simp add: matmul4_def)

lemma length_nth_matmul4:
  "b < length x \<Longrightarrow> b < length y \<Longrightarrow> length (matmul4 x y ! b) = min (length (x ! b)) (length (y ! b))"
  by (simp add: matmul4_def)

lemma nth_transpose_0132:
  "b < length x \<Longrightarrow> h < length (x ! b) \<Longrightarrow> transpose_0132 n x ! b ! h = swap_axes n (x ! b ! h)"
  by (simp add: transpose_0132_def)

lemma length_transpose_0132 [simp]: "length (transpose_0132 n x) = length x"
  by (simp add: transpose_0132_def)

lemma length_nth_transpose_0132:
  "b < length x \<Longrightarrow> length (transpose_0132 n x ! b) = length (x ! b)"
  by (simp add: transpose_0132_def)

text \<open>one stream: query projection \<open>ql\<close> on \<open>x\<close> against the key projection on \<open>y\<close>\<close>
lemma stream_scores:
  assumes "b < length x" "length y = length x" "h < num_attention_heads self"
    and "0 < attention_head_size self" and "out_features (key self) = all_head_size self"
  shows "matmul4 (transpose_for_scores self (Linear_forward3 ql x))
           (transpose_0132 (attention_head_size self)
              (transpose_for_scores self (Linear_forward3 (key self) y))) ! b ! h
         = times_transposed (transpose_for_scores self (Linear_forward3 ql x) ! b ! h)
             (transpose_for_scores self (Linear_forward3 (key self) y) ! b ! h)"
proof -
  have "matmul4 (transpose_for_scores self (Linear_forward3 ql x))
           (transpose_0132 (attention_head_size self)
              (transpose_for_scores self (Linear_forward3 (key self) y))) ! b ! h
        = matmul2 (transpose_for_scores self (Linear_forward3 ql x) ! b ! h)
            (swap_axes (attention_head_size self)
               (transpose_for_scores self (Linear_forward3 (key self) y) ! b ! h))"
    using assms(1-3)
    by (simp add: nth_matmul4 nth_transpose_0132 length_nth_transpose_0132
        length_nth_transpose_for_scores)
  also have "\<dots> = times_transposed (transpose_for_scores self (Linear_forward3 ql x) ! b ! h)
             (transpose_for_scores self (Linear_forward3 (key self) y) ! b ! h)"
    using assms by (intro matmul2_swap_axes head_rows_length) simp_all
  finally show ?thesis .
qed

lemma length_projected_heads:
  "b < length x \<Longrightarrow> h < num_attention_heads self \<Longrightarrow>
     length (projected_heads self l x b h) = length (x ! b)"
  by (simp add: projected_heads_def nth_transpose_for_scores Linear_forward3_def Linear_forward2_def)

lemma length_times_transposed [simp]: "length (times_transposed q k) = length q"
  by (simp add: times_transposed_def)

lemma rows_times_transposed: "\<forall>r\<in>set (times_transposed q k). length r = length k"
  by (simp add: times_transposed_def)

lemma length_concat_axis2 [simp]: "length (concat_axis2 x y) = min (length x) (length y)"
  by (simp add: concat_axis2_def)

lemma length_concat_axis3 [simp]: "length (concat_axis3 x y) = min (length x) (length y)"
  by (simp add: concat_axis3_def)

lemma length_nth_concat_axis2:
  "b < length x \<Longrightarrow> b < length y \<Longrightarrow>
     length (concat_axis2 x y ! b) = min (length (x ! b)) (length (y ! b))"
  by (simp add: concat_axis2_def concat_axis1_def)

lemma length_nth_concat_axis3:
  "b < length x \<Longrightarrow> b < length y \<Longrightarrow>
     length (concat_axis3 x y ! b) = min (length (x ! b)) (length (y ! b))"
  by (simp add: concat_axis3_def concat_axis2_def)

lemma length_stream:
  "length (matmul4 (transpose_for_scores self x)
       (transpose_0132 d (transpose_for_scores self y))) = min (length x) (length y)"
  by (simp add: length_matmul4)

lemma length_nth_stream:
  "b < length x \<Longrightarrow> b < length y \<Longrightarrow>
   length (matmul4 (transpose_for_scores self x)
       (transpose_0132 d (transpose_for_scores self y)) ! b) = num_attention_heads self"
  by (simp add: length_nth_matmul4 length_nth_transpose_0132 length_nth_transpose_for_scores)

lemma attention_scores_Some:
  assumes "length e = length w" and "\<forall>wb\<in>set w. length wb = dim1 w"
  shows "attention_scores self w (Some e) =
    concat_axis2
      (concat_axis3
         (matmul4 (transpose_for_scores self (Linear_forward3 (query self) w))
            (transpose_0132 (attention_head_size self)
               (transpose_for_scores self (Linear_forward3 (key self) w))))
         (matmul4 (transpose_for_scores self (Linear_forward3 (w2e_query self) w))
            (transpose_0132 (attention_head_size self)
               (transpose_for_scores self (Linear_forward3 (key self) e)))))
      (concat_axis3
         (matmul4 (transpose_for_scores self (Linear_forward3 (e2w_query self) e))
            (transpose_0132 (attention_head_size self)
               (transpose_for_scores self (Linear_forward3 (key self) w))))
         (matmul4 (transpose_for_scores self (Linear_forward3 (e2e_query self) e))
            (transpose_0132 (attention_head_size self)
               (transpose_for_scores self (Linear_forward3 (key self) e)))))"
  by (simp add: attention_scores_def w2w_attention_scores_def w2e_attention_scores_def
      e2w_attention_scores_def e2e_attention_scores_def w2w_key_layer_def w2e_key_layer_def
      e2w_key_layer_def e2e_key_layer_def word_key_block[OF assms] entity_key_block[OF assms])

text \<open>
  Claim C1. With word and entity states given, the score matrix before the softmax is,
  for every batch entry and head, the block matrix of the four streams: word-to-word is
  the \<open>query\<close> projection of the word states times the transposed keys of the word
  states, word-to-entity is the \<open>w2e_query\<close> projection of the word states times the
  transposed keys of the entity states, entity-to-word is the \<open>e2w_query\<close> projection of
  the entity states times the transposed keys of the word states, and entity-to-entity is
  the \<open>e2e_query\<close> projection of the entity states times the transposed keys of the
  entity states. The word blocks have \<open>word_size\<close> rows and columns and come first.
\<close>

theorem attention_scores_block_matrix:
  assumes "length e = length w" and "\<forall>wb\<in>set w. length wb = dim1 w"
    and "0 < attention_head_size self" and "out_features (key self) = all_head_size self"
    and "b < length w" and "h < num_attention_heads self"
  shows "attention_scores self w (Some e) ! b ! h =
           block_matrix
             (times_transposed (projected_heads self (query self) w b h)
                               (projected_heads self (key self) w b h))
             (times_transposed (projected_heads self (w2e_query self) w b h)
                               (projected_heads self (key self) e b h))
             (times_transposed (projected_heads self (e2w_query self) e b h)
                               (projected_heads self (key self) w b h))
             (times_transposed (projected_heads self (e2e_query self) e b h)
                               (projected_heads self (key self) e b h))
       \<and> length (projected_heads self (query self) w b h) = dim1 w
       \<and> length (projected_heads self (w2e_query self) w b h) = dim1 w
       \<and> length (projected_heads self (key self) w b h) = dim1 w
       \<and> length (projected_heads self (e2w_query self) e b h) = length (e ! b)
       \<and> length (projected_heads self (e2e_query self) e b h) = length (e ! b)
       \<and> length (projected_heads self (key self) e b h) = length (e ! b)"
proof -
  have be: "b < length e" using assms(1,5) by simp
  have len: "length (w ! b) = dim1 w" using assms(2,5) by simp
  have "attention_scores self w (Some e) ! b ! h =
      concat_axis1
         (matmul4 (transpose_for_scores self (Linear_forward3 (query self) w))
            (transpose_0132 (attention_head_size self)
               (transpose_for_scores self (Linear_forward3 (key self) w))) ! b ! h)
         (matmul4 (transpose_for_scores self (Linear_forward3 (w2e_query self) w))
            (transpose_0132 (attention_head_size self)
               (transpose_for_scores self (Linear_forward3 (key self) e))) ! b ! h)
      @ concat_axis1
         (matmul4 (transpose_for_scores self (Linear_forward3 (e2w_query self) e))
            (transpose_0132 (attention_head_size self)
               (transpose_for_scores self (Linear_forward3 (key self) w))) ! b ! h)
         (matmul4 (transpose_for_scores self (Linear_forward3 (e2e_query self) e))
            (transpose_0132 (attention_head_size self)
               (transpose_for_scores self (Linear_forward3 (key self) e))) ! b ! h)"
    unfolding attention_scores_Some[OF assms(1,2)]
    using assms(1,5,6) be
    by (simp add: nth_concat_axis2 nth_concat_axis3 length_nth_concat_axis3 length_stream
        length_nth_stream)
  then have "attention_scores self w (Some e) ! b ! h =
           block_matrix
             (times_transposed (projected_heads self (query self) w b h)
                               (projected_heads self (key self) w b h))
             (times_transposed (projected_heads self (w2e_query self) w b h)
                               (projected_heads self (key self) e b h))
             (times_transposed (projected_heads self (e2w_query self) e b h)
                               (projected_heads self (key self) w b h))
             (times_transposed (projected_heads self (e2e_query self) e b h)
                               (projected_heads self (key self) e b h))"
    using assms(1,3,4,5,6) be
    by (simp add: stream_scores block_matrix_def projected_heads_def)
  then show ?thesis
    using assms(5,6) be len by (simp add: length_projected_heads)
qed

lemmas example_defs = example_linear_def example_dropout_def example_attention_def
  example_words_def example_entities_def

lemmas attention_eval = dim1_def projected_heads_def transpose_for_scores_expand
  Linear_forward3_def Linear_forward2_def Linear_forward_def dot_def column_def
  numeral_2_eq_2 upt_rec all_head_size_def block_matrix_def times_transposed_def
  concat_axis1_def

theorem key_and_value_shared_by_streams_witness:
  "length example_entities = length example_words
   \<and> list_all (\<lambda>wb. length wb = dim1 example_words) example_words
   \<and> w2w_key_layer example_attention example_words example_entities = [[[[1]], [[2]]]]
   \<and> e2w_key_layer example_attention example_words example_entities = [[[[1]], [[2]]]]
   \<and> w2e_key_layer example_attention example_words example_entities = [[[[3]], [[4]]]]
   \<and> e2e_key_layer example_attention example_words example_entities = [[[[3]], [[4]]]]"
  using key_and_value_shared_by_streams [of example_entities example_words example_attention]
  by (simp add: example_defs attention_eval)

theorem attention_scores_block_matrix_witness:
  "length example_entities = length example_words
   \<and> list_all (\<lambda>wb. length wb = dim1 example_words) example_words
   \<and> 0 < attention_head_size example_attention
   \<and> out_features (key example_attention) = all_head_size example_attention
   \<and> 0 < length example_words \<and> 1 < num_attention_heads example_attention
   \<and> attention_scores example_attention example_words (Some example_entities) ! 0 ! 1
       = [[4, 16], [6, 28]]"
  using attention_scores_block_matrix [of example_entities example_words example_attention 0 1]
  by (simp add: example_defs attention_eval)

section \<open>The attention probabilities\<close>






lemma length_softmax [simp]: "length (softmax v) = length v"
  by (simp add: softmax_def)


lemma length_imap [simp]: "length (imap f xs) = length xs"
  by (simp add: imap_def)

lemma nth_imap: "i < length xs \<Longrightarrow> imap f xs ! i = f i (xs ! i)"
  by (simp add: imap_def)

lemma imap_id: "(\<And>i x. f i x = x) \<Longrightarrow> imap f xs = xs"
proof -
  assume f: "\<And>i x. f i x = x"
  show ?thesis
    by (rule nth_equalityI) (simp_all add: nth_imap f)
qed


lemma Dropout_forward4_eval:
  assumes "\<not> training d \<or> drop_prob d = 0"
  shows "Dropout_forward4 d x = x"
  unfolding Dropout_forward4_def using assms
  by (intro imap_id) (simp add: Dropout_entry_def)

lemma Dropout_forward3_eval:
  assumes "\<not> training d \<or> drop_prob d = 0"
  shows "Dropout_forward3 d x = x"
  unfolding Dropout_forward3_def using assms
  by (intro imap_id) (simp add: Dropout_entry_def)






section \<open>The position embeddings of the entities\<close>







section \<open>Shapes through the encoder\<close>


lemma length_concat_axis1 [simp]: "length (concat_axis1 x y) = min (length x) (length y)"
  by (simp add: concat_axis1_def)


lemma length_add3 [simp]: "length (add3 x y) = min (length x) (length y)"
  by (simp add: add3_def)



lemma length_LayerNorm_forward3 [simp]: "length (LayerNorm_forward3 nl x) = length x"
  by (simp add: LayerNorm_forward3_def)


lemma length_Dropout_forward3 [simp]: "length (Dropout_forward3 d x) = length x"
  by (simp add: Dropout_forward3_def)



lemma length_Dropout_forward4 [simp]: "length (Dropout_forward4 d x) = length x"
  by (simp add: Dropout_forward4_def)






























lemma length_pad_mask [simp]: "length (pad_mask pad ids) = length ids"
  by (simp add: pad_mask_def)








section \<open>The model without entities, and the sequence lengths\<close>




lemma snd_LukeLayer_forward_None: "snd (LukeLayer_forward l w None m) = None"
  by (simp add: LukeLayer_forward_def Let_def)










section \<open>The word states depend on the entities\<close>

lemma LayerNorm_pair:
  "LayerNorm_forward example_layer_norm [a, b]
     = [normalised ((a - b) / 2), - normalised ((a - b) / 2)]"
proof -
  have m: "a - (a + b) / 2 = (a - b) / 2" "b - (a + b) / 2 = - ((a - b) / 2)"
    by (simp_all add: field_simps)
  have v: "(((a - b) / 2)\<^sup>2 + (- ((a - b) / 2))\<^sup>2) / 2 = ((a - b) / 2)\<^sup>2"
    by (simp add: power2_eq_square)
  show ?thesis
    by (simp add: LayerNorm_forward_def example_layer_norm_def Let_def m v normalised_def)
qed

lemma normalised_0 [simp]: "normalised 0 = 0"
  by (simp add: normalised_def)

lemma normalised_pos: "0 < d \<Longrightarrow> 0 < normalised d"
  by (simp add: normalised_def add_pos_pos)

lemmas joint_defs = joint_luke_def joint_layer_def joint_attention_def
  joint_entity_embeddings_def zero_linear_def identity_linear_def example_linear_def
  example_table_def example_dropout_def

lemmas forward_eval = dim1_def Linear_forward3_def Linear_forward2_def Linear_forward_def
  dot_def column_def numeral_2_eq_2 upt_rec all_head_size_def concat_axis1_def
  concat_axis2_def concat_axis3_def attention_probs_def scaled_attention_scores_def
  attention_scores_def matmul4_def matmul2_def transpose_0132_def transpose_0213_def
  swap_axes_def transpose_for_scores_def split_heads_def key_layer_def value_layer_def
  concat_hidden_states_def softmax_def w2w_attention_scores_def w2e_attention_scores_def
  e2w_attention_scores_def e2e_attention_scores_def w2w_key_layer_def w2e_key_layer_def
  e2w_key_layer_def e2e_key_layer_def add4_def broadcast2_def

lemma joint_probs:
  "attention_probs joint_attention [[[a, b]]] (Some [[[c, d]]]) (Some [[[[0, 0]]]])
     = [[[[1 / 2, 1 / 2], [1 / 2, 1 / 2]]]]"
  by (simp add: joint_defs forward_eval)

lemma joint_self_attention:
  "LukeSelfAttention_forward joint_attention [[[a, b]]] (Some [[[c, d]]]) (Some [[[[0, 0]]]])
     = ([[[(a + c) / 2, (b + d) / 2]]], Some [[[(a + c) / 2, (b + d) / 2]]])"
proof -
  have d: "dropped_attention_probs joint_attention [[[a, b]]] (Some [[[c, d]]]) (Some [[[[0, 0]]]])
     = [[[[1 / 2, 1 / 2], [1 / 2, 1 / 2]]]]"
  proof -
    have "\<not> training (LukeSelfAttention.dropout joint_attention)"
      by (simp add: joint_attention_def example_dropout_def)
    then show ?thesis
      by (simp add: dropped_attention_probs_def Dropout_forward4_eval joint_probs)
  qed
  have v: "value_layer joint_attention [[[a, b]]] (Some [[[c, d]]]) = [[[[a, b], [c, d]]]]"
    by (simp add: joint_defs forward_eval)
  show ?thesis
    by (simp add: LukeSelfAttention_forward_def context_layer_def d v Let_def
        matmul4_def matmul2_def dim1_def dot_def column_def concat_hidden_states_def
        concat_axis1_def transpose_0213_def swap_axes_def numeral_2_eq_2 upt_rec field_simps)
qed

lemma identity_rows:
  "Linear_forward3 identity_linear [[[p, q], [r, s]]] = [[[p, q], [r, s]]]"
  "Linear_forward3 zero_linear [[[p, q], [r, s]]] = [[[0, 0], [0, 0]]]"
  by (simp_all add: joint_defs forward_eval)

lemma joint_self_output:
  assumes "LukeSelfOutput.dense so = identity_linear"
    and "LukeSelfOutput.layer_norm so = example_layer_norm"
    and "LukeSelfOutput.dropout so = example_dropout"
  shows "LukeSelfOutput_forward so [[[p, q], [r, s]]] [[[p', q'], [r', s']]]
           = [[LayerNorm_forward example_layer_norm [p + p', q + q'],
               LayerNorm_forward example_layer_norm [r + r', s + s']]]"
proof -
  have "\<not> training example_dropout" by (simp add: example_dropout_def)
  then show ?thesis
    by (simp add: LukeSelfOutput_forward_def assms identity_rows Dropout_forward3_eval
        add3_def LayerNorm_forward3_def)
qed

lemma joint_output:
  assumes "LukeOutput.dense so = zero_linear"
    and "LukeOutput.layer_norm so = example_layer_norm"
    and "LukeOutput.dropout so = example_dropout"
  shows "LukeOutput_forward so [[[p, q], [r, s]]] [[[p', q'], [r', s']]]
           = [[LayerNorm_forward example_layer_norm [p', q'],
               LayerNorm_forward example_layer_norm [r', s']]]"
proof -
  have "\<not> training example_dropout" by (simp add: example_dropout_def)
  then show ?thesis
    by (simp add: LukeOutput_forward_def assms identity_rows Dropout_forward3_eval
        add3_def LayerNorm_forward3_def)
qed

lemma joint_attention_forward:
  "LukeAttention_forward (attention joint_layer) [[[0, 0]]] (Some [[[x, - x]]]) (Some [[[[0, 0]]]])
     = ([[[normalised (x / 2), - normalised (x / 2)]]],
        Some [[[normalised (3 * x / 2), - normalised (3 * x / 2)]]])"
proof -
  have s: "self_attention (attention joint_layer) = joint_attention"
    by (simp add: joint_layer_def)
  have o: "LukeSelfOutput.dense (LukeAttention.output (attention joint_layer)) = identity_linear"
    "LukeSelfOutput.layer_norm (LukeAttention.output (attention joint_layer)) = example_layer_norm"
    "LukeSelfOutput.dropout (LukeAttention.output (attention joint_layer)) = example_dropout"
    by (simp_all add: joint_layer_def)
  have 1: "(x / 2 + 0 - (- x / 2 + 0)) / 2 = x / 2" "(x / 2 + x - (- x / 2 + - x)) / 2 = 3 * x / 2"
    by (simp_all add: field_simps)
  show ?thesis
    by (simp add: LukeAttention_forward_def s joint_self_attention Let_def
        concat_hidden_states_def concat_axis1_def joint_self_output[OF o] LayerNorm_pair
        dim1_def 1)
qed

lemma joint_layer_forward:
  "LukeLayer_forward joint_layer [[[0, 0]]] (Some [[[x, - x]]]) (Some [[[[0, 0]]]])
     = ([[[normalised (normalised (x / 2)), - normalised (normalised (x / 2))]]],
        Some [[[normalised (normalised (3 * x / 2)), - normalised (normalised (3 * x / 2))]]])"
proof -
  have o: "LukeOutput.dense (LukeLayer.output joint_layer) = zero_linear"
    "LukeOutput.layer_norm (LukeLayer.output joint_layer) = example_layer_norm"
    "LukeOutput.dropout (LukeLayer.output joint_layer) = example_dropout"
    by (simp_all add: joint_layer_def)
  have i: "LukeIntermediate_forward (intermediate joint_layer) [[[p, q], [r, s]]] = [[[0, 0], [0, 0]]]"
    for p q r s
    by (simp add: LukeIntermediate_forward_def joint_layer_def identity_rows)
  show ?thesis
    by (simp add: LukeLayer_forward_def joint_attention_forward Let_def
        concat_hidden_states_def concat_axis1_def feed_forward_chunk_def i
        joint_output[OF o] LayerNorm_pair dim1_def)
qed

lemma joint_entity_embedding_1:
  "EntityEmbeddings_forward joint_entity_embeddings [[1]] [[[0]]] (Some [[0]]) = [[[0, 0]]]"
proof -
  have "\<not> training example_dropout" by (simp add: example_dropout_def)
  then have d: "Dropout_forward3 (EntityEmbeddings.dropout joint_entity_embeddings) y = y" for y
    by (simp add: joint_entity_embeddings_def Dropout_forward3_eval)
  have n: "EntityEmbeddings.layer_norm joint_entity_embeddings = example_layer_norm"
    by (simp add: joint_entity_embeddings_def)
  show ?thesis
    unfolding EntityEmbeddings_forward_def Let_def d n
    by (simp add: joint_entity_embeddings_def example_table_def Embedding_forward_def
        entity_position_embeddings_def entity_position_term_def position_embedding_mask_def
        sum_axis0_def column_def numeral_2_eq_2 upt_rec add3_def LayerNorm_forward3_def
        LayerNorm_pair[of 0 0, simplified])
qed

lemma joint_entity_embedding_2:
  "EntityEmbeddings_forward joint_entity_embeddings [[2]] [[[0]]] (Some [[0]])
     = [[[normalised 1, - normalised 1]]]"
proof -
  have "\<not> training example_dropout" by (simp add: example_dropout_def)
  then have d: "Dropout_forward3 (EntityEmbeddings.dropout joint_entity_embeddings) y = y" for y
    by (simp add: joint_entity_embeddings_def Dropout_forward3_eval)
  have n: "EntityEmbeddings.layer_norm joint_entity_embeddings = example_layer_norm"
    by (simp add: joint_entity_embeddings_def)
  show ?thesis
    unfolding EntityEmbeddings_forward_def Let_def d n
    by (simp add: joint_entity_embeddings_def example_table_def Embedding_forward_def
        entity_position_embeddings_def entity_position_term_def position_embedding_mask_def
        sum_axis0_def column_def numeral_2_eq_2 upt_rec add3_def LayerNorm_forward3_def
        LayerNorm_pair[of 2 0, simplified])
qed

lemma joint_mask:
  "i \<noteq> 0 \<Longrightarrow> LukeModel_attention_mask joint_luke [[5]] None (Some [[i]]) None = [[[[0, 0]]]]"
  by (simp add: LukeModel_attention_mask_def pad_mask_def joint_luke_def concat_axis3_def
      concat_axis2_def concat_axis1_def)

lemma joint_luke_forward:
  assumes "i \<noteq> 0"
    and "EntityEmbeddings_forward joint_entity_embeddings [[i]] [[[0]]] (Some [[0]]) = [[[x, - x]]]"
  shows "\<exists>po. LukeModel_forward joint_luke [[5]] None None None (Some [[i]]) (Some [[[0]]]) None None
           = Some ([[[normalised (normalised (x / 2)), - normalised (normalised (x / 2))]]],
                   Some [[[normalised (normalised (3 * x / 2)),
                           - normalised (normalised (3 * x / 2))]]],
                   po)"
proof -
  have e: "LukeModel.entity_embeddings joint_luke = joint_entity_embeddings"
    "encoder joint_luke = [joint_layer]"
    "embeddings joint_luke [[5]] None None = [[[0, 0]]]"
    by (simp_all add: joint_luke_def)
  show ?thesis
    by (simp add: LukeModel_forward_def Let_def joint_mask[OF assms(1)] e dim1_def assms(2)
        joint_layer_forward LukePooler_forward_def)
qed

text \<open>
  Claim C5. Words and entities are contextualised jointly: the small model \<open>joint_luke\<close>,
  called twice with the same word arguments and with the entity ids \<open>[[1]]\<close> and \<open>[[2]]\<close>,
  returns two different word hidden states.
\<close>

theorem word_states_depend_on_entities:
  "\<exists>w1 e1 p1 w2 e2 p2.
     LukeModel_forward joint_luke [[5]] None None None (Some [[1]]) (Some [[[0]]]) None None
       = Some (w1, e1, p1)
   \<and> LukeModel_forward joint_luke [[5]] None None None (Some [[2]]) (Some [[[0]]]) None None
       = Some (w2, e2, p2)
   \<and> w1 \<noteq> w2"
proof -
  have "EntityEmbeddings_forward joint_entity_embeddings [[1]] [[[0]]] (Some [[0]]) = [[[0, - 0]]]"
    by (simp add: joint_entity_embedding_1)
  from joint_luke_forward[OF _ this]
  obtain p1 where 1:
    "LukeModel_forward joint_luke [[5]] None None None (Some [[1]]) (Some [[[0]]]) None None
       = Some ([[[0, 0]]], Some [[[0, 0]]], p1)"
    by auto
  from joint_luke_forward[OF _ joint_entity_embedding_2]
  obtain p2 where 2:
    "LukeModel_forward joint_luke [[5]] None None None (Some [[2]]) (Some [[[0]]]) None None
       = Some ([[[normalised (normalised (normalised 1 / 2)),
                  - normalised (normalised (normalised 1 / 2))]]],
               Some [[[normalised (normalised (3 * normalised 1 / 2)),
                       - normalised (normalised (3 * normalised 1 / 2))]]],
               p2)"
    by auto
  have "0 < normalised 1" by (rule normalised_pos) simp
  then have "0 < normalised (normalised 1 / 2)" by (intro normalised_pos) simp
  then have "0 < normalised (normalised (normalised 1 / 2))" by (rule normalised_pos)
  then have ne: "[[[0, 0 :: real]]] \<noteq> [[[normalised (normalised (normalised 1 / 2)),
                                  - normalised (normalised (normalised 1 / 2))]]]"
    by simp
  show ?thesis
    by (intro exI conjI) (rule 1, rule 2, rule ne)
qed

section \<open>The entries that \<^verbatim>\<open>paddle_gather\<close> returns\<close>

lemma ravel_less: "list_all2 (\<lambda>i d. i < d) idx shp \<Longrightarrow> ravel shp idx < prod_list shp"
proof (induction idx shp rule: list_all2_induct)
  case Nil
  then show ?case by simp
next
  case (Cons i idx d shp)
  have "i * prod_list shp + ravel shp idx < i * prod_list shp + prod_list shp"
    using Cons.IH by simp
  also have "\<dots> = (i + 1) * prod_list shp" by simp
  also have "\<dots> \<le> d * prod_list shp"
    using Cons.hyps(1) by (intro mult_le_mono1) simp
  finally show ?case by simp
qed

lemma unravel_ravel: "list_all2 (\<lambda>i d. i < d) idx shp \<Longrightarrow> unravel shp (ravel shp idx) = idx"
proof (induction idx shp rule: list_all2_induct)
  case Nil
  then show ?case by simp
next
  case (Cons i idx d shp)
  have r: "ravel shp idx < prod_list shp" using Cons.hyps(2) by (rule ravel_less)
  then show ?case using Cons.IH by simp
qed

lemma concat_nth_uniform:
  assumes "\<forall>l\<in>set ls. length l = m" and "k < length ls" and "j < m"
  shows "concat ls ! (k * m + j) = ls ! k ! j"
  using assms
proof (induction ls arbitrary: k)
  case Nil
  then show ?case by simp
next
  case (Cons l ls)
  show ?case
  proof (cases k)
    case 0
    then show ?thesis using Cons.prems by (simp add: nth_append)
  next
    case (Suc k')
    have "concat (l # ls) ! (k * m + j) = concat ls ! (k' * m + j)"
      using Cons.prems Suc by (simp add: nth_append)
    then show ?thesis using Cons.IH[of k'] Cons.prems Suc by simp
  qed
qed

lemma length_concat_uniform:
  "\<forall>l\<in>set ls. length l = m \<Longrightarrow> length (concat ls) = length ls * m"
  by (induction ls) simp_all

lemma ravel_zeros: "\<forall>i\<in>set v. i = 0 \<Longrightarrow> ravel ds v = 0"
  by (induction ds v rule: ravel.induct) simp_all

lemma prod_list_unit: "prod_list ((replicate n (1::nat))[k := m]) = (if k < n then m else 1)"
proof (induction n arbitrary: k)
  case 0
  then show ?case by simp
next
  case (Suc n)
  then show ?case by (cases k) simp_all
qed

lemma ravel_unit:
  assumes "length v = n" and "k < n" and "\<forall>i<n. i \<noteq> k \<longrightarrow> v ! i = 0"
  shows "ravel ((replicate n 1)[k := m]) v = v ! k"
  using assms
proof (induction n arbitrary: k v)
  case 0
  then show ?case by simp
next
  case (Suc n)
  then obtain i w where v: "v = i # w" "length w = n" by (cases v) auto
  show ?case
  proof (cases k)
    case 0
    have "\<forall>a\<in>set w. a = 0"
    proof
      fix a assume "a \<in> set w"
      then obtain q where "q < length w" "w ! q = a" by (auto simp: in_set_conv_nth)
      then show "a = 0" using Suc.prems(3)[rule_format, of "Suc q"] v 0 by simp
    qed
    then have "ravel (replicate n 1) w = 0" by (rule ravel_zeros)
    then show ?thesis using 0 v by simp
  next
    case (Suc k')
    have i: "i = 0" using Suc.prems(3)[rule_format, of 0] v Suc by simp
    have "\<forall>q<n. q \<noteq> k' \<longrightarrow> w ! q = 0"
      using Suc.prems(3) v Suc by (metis Suc_less_eq nat.inject nth_Cons_Suc)
    then have "ravel ((replicate n 1)[k' := m]) w = w ! k'"
      using Suc.IH[of w k'] v Suc.prems(2) Suc by simp
    then show ?thesis using v Suc i by simp
  qed
qed

lemma length_nd_index:
  "length (data index) = prod_list (shape index) \<Longrightarrow>
     length (data (nd_index x dm index k)) = prod_list (shape index)"
  by (simp add: nd_index_def flatten_def expand_def Let_def)

lemma shape_nd_index: "shape (nd_index x dm index k) = [prod_list (shape index)]"
  by (simp add: nd_index_def flatten_def expand_def Let_def)

lemma nd_index_dim:
  "int k = dm \<Longrightarrow> data (nd_index x dm index k) = data index"
  by (simp add: nd_index_def flatten_def)

lemma length_broadcast_index:
  "length idx = length src \<Longrightarrow> length (broadcast_index src idx) = length src"
  by (simp add: broadcast_index_def)

lemma nth_broadcast_index:
  "length idx = length src \<Longrightarrow> k < length src \<Longrightarrow>
     broadcast_index src idx ! k = (if src ! k = 1 then 0 else idx ! k)"
  by (simp add: broadcast_index_def)

lemma nd_index_other:
  assumes "int k \<noteq> dm" and "k < length (shape x)"
    and "length (shape index) = length (shape x)"
    and "valid_index (shape index) idx"
    and "shape x ! k = shape index ! k \<or> shape x ! k = 1"
  shows "data (nd_index x dm index k) ! ravel (shape index) idx
           = int (broadcast_index (shape x) idx ! k)"
proof -
  let ?n = "length (shape x)" and ?s = "shape index" and ?xk = "shape x ! k"
  let ?rs = "(replicate ?n 1)[k := ?xk]"
  let ?v = "broadcast_index ?rs idx"
  have v: "list_all2 (\<lambda>i d. i < d) idx ?s" using assms(4) by (simp add: valid_index_def)
  then have len: "length idx = ?n" using assms(3) by (simp add: list_all2_lengthD)
  have j: "ravel ?s idx < prod_list ?s" using v by (rule ravel_less)
  have u: "unravel ?s (ravel ?s idx) = idx" using v by (rule unravel_ravel)
  have idxk: "idx ! k < ?s ! k"
    using v assms(2,3) by (simp add: list_all2_conv_all_nth)
  have lv: "length ?v = ?n" using len by (simp add: length_broadcast_index)
  have vk: "?v ! k = (if ?xk = 1 then 0 else idx ! k)"
    using len assms(2) by (simp add: nth_broadcast_index)
  have vo: "\<forall>i<?n. i \<noteq> k \<longrightarrow> ?v ! i = 0"
    using len by (simp add: nth_broadcast_index)
  have r: "ravel ?rs ?v = ?v ! k"
    using lv assms(2) vo by (rule ravel_unit)
  have bound: "?v ! k < ?xk"
    using vk idxk assms(5) by (cases "?xk = 1") auto
  have "data (nd_index x dm index k) ! ravel ?s idx
          = entry (reshape (arange ?xk) ?rs) ?v"
    using assms(1) j by (simp add: nd_index_def flatten_def expand_def Let_def u reshape_def)
  also have "\<dots> = map int [0..<?xk] ! ravel ?rs ?v"
    by (simp add: entry_def reshape_def arange_def)
  also have "\<dots> = map int [0..<?xk] ! (?v ! k)"
    by (simp only: r)
  also have "\<dots> = int (?v ! k)"
    using bound by simp
  also have "?v ! k = broadcast_index (shape x) idx ! k"
    using vk len assms(2) by (simp add: nth_broadcast_index)
  finally show ?thesis .
qed

lemma transpose_stack_entry:
  assumes "\<forall>t\<in>set ts. length (data t) = m \<and> shape t = [m]"
    and "k < length ts" and "j < m"
  shows "data (transpose_10 (stack ts)) ! (j * length ts + k) = data (ts ! k) ! j"
    and "shape (transpose_10 (stack ts)) = [m, length ts]"
proof -
  let ?n = "length ts"
  obtain t0 ts' where ts: "ts = t0 # ts'" using assms(2) by (cases ts) auto
  have sh: "shape (stack ts) = [?n, m]"
    using assms(1) ts by (simp add: stack_def)
  have q: "j * ?n + k < m * ?n"
  proof -
    have "j * ?n + k < j * ?n + ?n" using assms(2) by simp
    also have "\<dots> = (j + 1) * ?n" by simp
    also have "\<dots> \<le> m * ?n" using assms(3) by (intro mult_le_mono1) simp
    finally show ?thesis .
  qed
  have "0 < ?n" using ts by simp
  then have md: "(j * ?n + k) mod ?n = k" "(j * ?n + k) div ?n = j"
    using assms(2) by (simp_all add: div_mult_self3)
  have "data (transpose_10 (stack ts)) ! (j * ?n + k) = data (stack ts) ! (k * m + j)"
    using q assms(2) by (simp add: transpose_10_def sh Let_def md)
  also have "\<dots> = map data ts ! k ! j"
    unfolding stack_def using assms by (simp add: concat_nth_uniform)
  finally show "data (transpose_10 (stack ts)) ! (j * length ts + k) = data (ts ! k) ! j"
    using assms(2) by simp
  show "shape (transpose_10 (stack ts)) = [m, length ts]"
    by (simp add: transpose_10_def sh Let_def)
qed

lemma transpose_stack_shape:
  assumes "ts \<noteq> []" and "\<forall>t\<in>set ts. length (data t) = m \<and> shape t = [m]"
  shows "shape (transpose_10 (stack ts)) = [m, length ts]"
proof -
  obtain t0 ts' where ts: "ts = t0 # ts'" using assms(1) by (cases ts) auto
  then have "shape (stack ts) = [length ts, m]"
    using assms(2) by (simp add: stack_def)
  then show ?thesis by (simp add: transpose_10_def Let_def)
qed

lemma paddle_gather_shape: "shape (paddle_gather x dm index) = shape index"
  by (simp add: paddle_gather_def Let_def reshape_def)

lemma gather_nd_stack:
  assumes "length (data index) = prod_list (shape index)"
    and "0 < length (shape x)"
  shows "data (gather_nd x (transpose_10 (stack (map (nd_index x dd index) [0..<length (shape x)]))))
           = map (\<lambda>j. entry x (map (\<lambda>k. nat (data (nd_index x dd index k) ! j))
                                  [0..<length (shape x)]))
               [0..<prod_list (shape index)]"
proof -
  let ?n = "length (shape x)" and ?m = "prod_list (shape index)"
  let ?ts = "map (nd_index x dd index) [0..<?n]"
  have ts: "\<forall>t\<in>set ?ts. length (data t) = ?m \<and> shape t = [?m]"
    using assms(1) by (auto simp: length_nd_index shape_nd_index)
  have len: "length ?ts = ?n" by simp
  have "?ts \<noteq> []" using assms(2) by simp
  then have "shape (transpose_10 (stack ?ts)) = [?m, length ?ts]"
    using ts by (rule transpose_stack_shape)
  then have sh: "shape (transpose_10 (stack ?ts)) = [?m, ?n]"
    by (simp only: len)
  have e: "data (transpose_10 (stack ?ts)) ! (j * ?n + k) = data (nd_index x dd index k) ! j"
    if "j < ?m" "k < ?n" for j k
    using transpose_stack_entry(1)[OF ts, of k j] that by simp
  have "map (\<lambda>j. entry x (map (\<lambda>k. nat (data (transpose_10 (stack ?ts)) ! (j * ?n + k)))
                           [0..<?n])) [0..<?m]
          = map (\<lambda>j. entry x (map (\<lambda>k. nat (data (nd_index x dd index k) ! j)) [0..<?n])) [0..<?m]"
    by (intro map_cong refl arg_cong[where f = "entry x"]) (simp add: e)
  then show ?thesis
    by (simp add: gather_nd_def Let_def sh)
qed

lemma paddle_gather_data:
  assumes "length (data index) = prod_list (shape index)"
    and "0 < length (shape x)"
  shows "data (paddle_gather x dm index) =
           map (\<lambda>j. entry x (map (\<lambda>k. nat (data (nd_index x
                   (if dm < 0 then int (length (shape x)) + dm else dm) index k) ! j))
                 [0..<length (shape x)]))
             [0..<prod_list (shape index)]"
  using gather_nd_stack[OF assms, of "if dm < 0 then int (length (shape x)) + dm else dm"]
  by (simp add: paddle_gather_def Let_def reshape_def)

lemma paddle_gather_entry:
  assumes wf: "length (data x) = prod_list (shape x)"
      "length (data index) = prod_list (shape index)"
    and rank: "length (shape index) = length (shape x)"
    and dm: "- int (length (shape x)) \<le> dm" "dm < int (length (shape x))"
    and d: "d = nat (if dm < 0 then int (length (shape x)) + dm else dm)"
    and agree: "\<forall>k<length (shape x). k \<noteq> d \<longrightarrow>
                  shape x ! k = shape index ! k \<or> shape x ! k = 1"
    and inrange: "\<forall>v\<in>set (data index). 0 \<le> v \<and> v < int (shape x ! d)"
    and idx: "valid_index (shape index) idx"
  shows "shape (paddle_gather x dm index) = shape index
       \<and> length (data (paddle_gather x dm index)) = prod_list (shape index)
       \<and> entry (paddle_gather x dm index) idx
           = entry x ((broadcast_index (shape x) idx)[d := nat (entry index idx)])
       \<and> valid_index (shape x) ((broadcast_index (shape x) idx)[d := nat (entry index idx)])
       \<and> ((\<forall>k<length (shape x). k \<noteq> d \<longrightarrow> shape x ! k = shape index ! k)
            \<longrightarrow> (broadcast_index (shape x) idx)[d := nat (entry index idx)]
                = idx[d := nat (entry index idx)])"
proof -
  let ?n = "length (shape x)" and ?s = "shape index"
  let ?d = "if dm < 0 then int ?n + dm else dm"
  let ?j = "ravel ?s idx"
  let ?b = "broadcast_index (shape x) idx"
  have n: "0 < ?n" using dm by linarith
  have dn: "d < ?n" "int d = ?d" using dm d by (auto split: if_splits)
  have v: "list_all2 (\<lambda>i d. i < d) idx ?s" using idx by (simp add: valid_index_def)
  then have len: "length idx = ?n" using rank by (simp add: list_all2_lengthD)
  have j: "?j < prod_list ?s" using v by (rule ravel_less)
  have lb: "length ?b = ?n" using len by (simp add: length_broadcast_index)
  have row: "map (\<lambda>k. nat (data (nd_index x ?d index k) ! ?j)) [0..<?n]
               = ?b[d := nat (entry index idx)]"
  proof (rule nth_equalityI)
    show "length (map (\<lambda>k. nat (data (nd_index x ?d index k) ! ?j)) [0..<?n])
            = length (?b[d := nat (entry index idx)])"
      using lb by simp
  next
    fix k assume "k < length (map (\<lambda>k. nat (data (nd_index x ?d index k) ! ?j)) [0..<?n])"
    then have k: "k < ?n" by simp
    show "map (\<lambda>k. nat (data (nd_index x ?d index k) ! ?j)) [0..<?n] ! k
            = ?b[d := nat (entry index idx)] ! k"
    proof (cases "k = d")
      case True
      then have "int k = ?d" using dn by simp
      then have "data (nd_index x ?d index k) = data index" by (rule nd_index_dim)
      then show ?thesis using k True lb by (simp add: entry_def)
    next
      case False
      then have ne: "int k \<noteq> ?d" using dn by linarith
      have "shape x ! k = shape index ! k \<or> shape x ! k = 1"
        using agree k False by simp
      from nd_index_other[OF ne k rank idx this]
      show ?thesis using k False lb by simp
    qed
  qed
  have e: "entry (paddle_gather x dm index) idx = entry x (?b[d := nat (entry index idx)])"
    using j by (simp add: entry_def[of "paddle_gather x dm index"] paddle_gather_shape
        paddle_gather_data[OF wf(2) n] row)
  have l: "length (data (paddle_gather x dm index)) = prod_list ?s"
    by (simp add: paddle_gather_data[OF wf(2) n])
  have inr: "nat (entry index idx) < shape x ! d"
  proof -
    have "data index ! ?j \<in> set (data index)" using j wf(2) by simp
    then show ?thesis using inrange by (auto simp: entry_def)
  qed
  have val: "valid_index (shape x) (?b[d := nat (entry index idx)])"
    unfolding valid_index_def list_all2_conv_all_nth
  proof (intro conjI allI impI)
    show "length (?b[d := nat (entry index idx)]) = length (shape x)" using lb by simp
  next
    fix k assume "k < length (?b[d := nat (entry index idx)])"
    then have k: "k < ?n" using lb by simp
    have ik: "idx ! k < ?s ! k" using v k rank by (simp add: list_all2_conv_all_nth)
    show "?b[d := nat (entry index idx)] ! k < shape x ! k"
    proof (cases "k = d")
      case True
      then show ?thesis using inr lb k by simp
    next
      case False
      then have "shape x ! k = shape index ! k \<or> shape x ! k = 1"
        using agree k by simp
      then show ?thesis
        using False k len ik by (auto simp: nth_broadcast_index)
    qed
  qed
  have same: "?b[d := nat (entry index idx)] = idx[d := nat (entry index idx)]"
    if a: "\<forall>k<?n. k \<noteq> d \<longrightarrow> shape x ! k = shape index ! k"
  proof (rule nth_equalityI)
    show "length (?b[d := nat (entry index idx)]) = length (idx[d := nat (entry index idx)])"
      using lb len by simp
  next
    fix k assume "k < length (?b[d := nat (entry index idx)])"
    then have k: "k < ?n" using lb by simp
    have ik: "idx ! k < ?s ! k" using v k rank by (simp add: list_all2_conv_all_nth)
    show "?b[d := nat (entry index idx)] ! k = idx[d := nat (entry index idx)] ! k"
    proof (cases "k = d")
      case True
      then show ?thesis using lb len k by simp
    next
      case False
      then have "shape x ! k = shape index ! k" using a k by simp
      then show ?thesis
        using False k len ik by (auto simp: nth_broadcast_index)
    qed
  qed
  show ?thesis
    using paddle_gather_shape e l val same by blast
qed

text \<open>
  Claim C2. For a tensor \<open>x\<close>, an axis \<open>dm\<close> (a negative one counted from the last axis)
  and an index tensor of the rank of \<open>x\<close>, whose entries are indices into \<open>x\<close> along that
  axis and whose shape agrees with the shape of \<open>x\<close> on every other axis up to
  broadcasting, \<^verbatim>\<open>paddle_gather\<close> returns a tensor of the shape of the index tensor. Its
  entry at a multi-index is the entry of \<open>x\<close> at the same multi-index, read with
  broadcasting, with the coordinate of the axis replaced by the entry of the index tensor
  at that multi-index. Where the shapes agree exactly on the other axes, the multi-index
  read in \<open>x\<close> is the given one with that coordinate replaced.
\<close>

theorem paddle_gather_entries:
  assumes wf: "length (data x) = prod_list (shape x)"
      "length (data index) = prod_list (shape index)"
    and rank: "length (shape index) = length (shape x)"
    and dm: "- int (length (shape x)) \<le> dm" "dm < int (length (shape x))"
    and d: "d = nat (if dm < 0 then int (length (shape x)) + dm else dm)"
    and agree: "\<forall>k<length (shape x). k \<noteq> d \<longrightarrow>
                  shape x ! k = shape index ! k \<or> shape x ! k = 1"
    and inrange: "\<forall>v\<in>set (data index). 0 \<le> v \<and> v < int (shape x ! d)"
    and idx: "valid_index (shape index) idx"
  shows "shape (paddle_gather x dm index) = shape index
       \<and> length (data (paddle_gather x dm index)) = prod_list (shape index)
       \<and> entry (paddle_gather x dm index) idx
           = entry x ((broadcast_index (shape x) idx)[d := nat (entry index idx)])
       \<and> valid_index (shape x) ((broadcast_index (shape x) idx)[d := nat (entry index idx)])
       \<and> ((\<forall>k<length (shape x). k \<noteq> d \<longrightarrow> shape x ! k = shape index ! k)
            \<longrightarrow> (broadcast_index (shape x) idx)[d := nat (entry index idx)]
                = idx[d := nat (entry index idx)])"
  using assms by (rule paddle_gather_entry)

theorem paddle_gather_entries_witness:
  "shape (paddle_gather gather_x (- 1) gather_index) = [2, 2]
   \<and> entry (paddle_gather gather_x (- 1) gather_index) [1, 0] = 21
   \<and> entry gather_x [1, 1] = 21"
proof -
  have h: "length (data gather_x) = prod_list (shape gather_x)"
    "length (data gather_index) = prod_list (shape gather_index)"
    "length (shape gather_index) = length (shape gather_x)"
    "- int (length (shape gather_x)) \<le> - 1" "- 1 < int (length (shape gather_x))"
    "1 = nat (if (- 1 :: int) < 0 then int (length (shape gather_x)) + - 1 else - 1)"
    "\<forall>k<length (shape gather_x). k \<noteq> 1 \<longrightarrow>
        shape gather_x ! k = shape gather_index ! k \<or> shape gather_x ! k = 1"
    "\<forall>v\<in>set (data gather_index). 0 \<le> v \<and> v < int (shape gather_x ! 1)"
    "valid_index (shape gather_index) [1, 0]"
    by (simp_all add: gather_x_def gather_index_def valid_index_def less_Suc_eq numeral_2_eq_2)
  have b: "(broadcast_index (shape gather_x) [1, 0])[1 := nat (entry gather_index [1, 0])] = [1, 1]"
    by (simp add: gather_x_def gather_index_def broadcast_index_def entry_def)
  have e: "entry gather_x [1, 1] = 21"
    by (simp add: gather_x_def entry_def)
  from paddle_gather_entries [OF h]
  have "shape (paddle_gather gather_x (- 1) gather_index) = shape gather_index"
    and "entry (paddle_gather gather_x (- 1) gather_index) [1, 0]
           = entry gather_x
               ((broadcast_index (shape gather_x) [1, 0])[1 := nat (entry gather_index [1, 0])])"
    by blast+
  then show ?thesis
    unfolding b e by (simp add: gather_index_def)
qed

section \<open>The logits of the span classification head\<close>












end
